theory Spec2Isabelle
  imports Complex_Main "HOL-Library.List_Lexorder" "HOL-Library.Product_Lexorder"
    "HOL-Library.Multiset"
begin

section \<open>Python values\<close>

text \<open>
  A Python \<^verbatim>\<open>str\<close> is a sequence of Unicode code points, so it is modelled as a list of
  naturals.  ASCII text of the source is written with \<open>ascii\<close>; text outside ASCII is
  written as the list of its code points, with the original in a comment.
\<close>

type_synonym pystr = "nat list"

definition ascii :: "string \<Rightarrow> pystr" where
  "ascii s = map of_char s"

definition nl :: pystr where
  "nl = [10]"

text \<open>
  A Python \<^verbatim>\<open>float\<close>: a finite value, a NaN or an infinity.  No claim computes with the
  finite values; they are only read, tested for NaN and printed.
\<close>

datatype pyfloat = Finite real | NaN | PosInf | NegInf

text \<open>
  What a spreadsheet cell is once pandas has read it: \<open>CFloat NaN\<close> is the empty cell,
  \<open>CTime\<close> a timestamp (nanoseconds), \<open>CNaT\<close> the missing timestamp.  \<open>CNone\<close> is
  Python's \<^verbatim>\<open>None\<close>, which \<^verbatim>\<open>dict.get\<close> returns for a key that is not there.
\<close>

datatype cell = CNone | CBool bool | CInt int | CFloat pyfloat | CStr pystr | CTime int | CNaT

text \<open>Exceptions, each with its message (\<^verbatim>\<open>str(e)\<close>).\<close>

datatype py_error =
    TypeError pystr
  | ValueError pystr
  | IndexError pystr
  | KeyError pystr
  | OverflowError pystr
  | OSError pystr
  | OtherException pystr

fun err_msg :: "py_error \<Rightarrow> pystr" where
  "err_msg (TypeError m) = m"
| "err_msg (ValueError m) = m"
| "err_msg (IndexError m) = m"
| "err_msg (KeyError m) = m"
| "err_msg (OverflowError m) = m"
| "err_msg (OSError m) = m"
| "err_msg (OtherException m) = m"

text \<open>
  The parts of the interpreter and of pandas that are tables or numeric algorithms of their
  own are parameters of the model: the Unicode database's alphanumeric test (behind the
  regular expression class \<^verbatim>\<open>\w\<close>), \<^verbatim>\<open>float\<close> on a string (\<open>None\<close> is its ValueError),
  \<^verbatim>\<open>str\<close> of a float and of a timestamp, the cell formatter of
  \<^verbatim>\<open>DataFrame.to_html\<close>, and of \<^verbatim>\<open>DataFrame.sort_values\<close> the message of its TypeError
  on the values it was given and the order in which it takes up the rows, which decides the
  order among rows of equal key.  Every theorem below holds for all of them.
\<close>

record pylib =
  uni_isalnum :: "nat \<Rightarrow> bool"
  float_of_str :: "pystr \<Rightarrow> pyfloat option"
  str_of_float :: "pyfloat \<Rightarrow> pystr"
  str_of_time :: "int \<Rightarrow> pystr"
  html_cell :: "cell \<Rightarrow> pystr"
  sort_error_msg :: "cell list \<Rightarrow> pystr"
  tie_order :: "cell list list \<Rightarrow> cell list list"

section \<open>safe_slug\<close>

text \<open>
  \<^verbatim>\<open>str.isspace\<close> and the regular expression class \<^verbatim>\<open>\s\<close> agree on \<^verbatim>\<open>str\<close> patterns:
  the Unicode whitespace code points.
\<close>

definition isspace :: "nat \<Rightarrow> bool" where
  "isspace c \<longleftrightarrow>
     (9 \<le> c \<and> c \<le> 13) \<or> (28 \<le> c \<and> c \<le> 32) \<or> c = 133 \<or> c = 160 \<or> c = 5760 \<or>
     (8192 \<le> c \<and> c \<le> 8202) \<or> c = 8232 \<or> c = 8233 \<or> c = 8239 \<or> c = 8287 \<or> c = 12288"

text \<open>\<^verbatim>\<open>text.strip()\<close>\<close>

definition strip :: "pystr \<Rightarrow> pystr" where
  "strip s = rev (dropWhile isspace (rev (dropWhile isspace s)))"

text \<open>\<^verbatim>\<open>re.sub(r"\s+", "_", text)\<close>: every maximal run of whitespace becomes one underscore.\<close>

function sub_ws :: "pystr \<Rightarrow> pystr" where
  "sub_ws [] = []"
| "sub_ws (c # cs) =
     (if isspace c then 95 # sub_ws (dropWhile isspace cs) else c # sub_ws cs)"
  by pat_completeness auto
termination
  by (relation "measure length") (auto simp: length_dropWhile_le le_imp_less_Suc)

text \<open>
  The class \<^verbatim>\<open>[^\w\u4e00-\u9fff\-_.]\<close> is the complement of \<open>slug_allowed\<close>: a word
  character (\<^verbatim>\<open>\w\<close>: alphanumeric or underscore), U+4E00 to U+9FFF, hyphen, underscore, dot.
\<close>

definition is_word :: "pylib \<Rightarrow> nat \<Rightarrow> bool" where
  "is_word L c \<longleftrightarrow> uni_isalnum L c \<or> c = 95"

definition slug_allowed :: "pylib \<Rightarrow> nat \<Rightarrow> bool" where
  "slug_allowed L c \<longleftrightarrow>
     is_word L c \<or> (19968 \<le> c \<and> c \<le> 40959) \<or> c = 45 \<or> c = 95 \<or> c = 46"

text \<open>\<^verbatim>\<open>re.sub(r"[^\w\u4e00-\u9fff\-_.]", "_", text)\<close>\<close>

definition sub_disallowed :: "pylib \<Rightarrow> pystr \<Rightarrow> pystr" where
  "sub_disallowed L s = map (\<lambda>c. if slug_allowed L c then c else 95) s"

definition safe_slug :: "pylib \<Rightarrow> pystr \<Rightarrow> pystr" where
  "safe_slug L text = sub_disallowed L (sub_ws (strip text))"

subsection \<open>String constants of the source\<close>

text \<open>\<^verbatim>\<open>SCHOOL_EXCEL.name\<close>, the last component of the school list's path\<close>

definition SCHOOL_EXCEL_name :: pystr where
  \<open>SCHOOL_EXCEL_name =
     ascii ''111'' @
     [23416, 24180, 24230, 21508, 32026, 23416, 26657, 21517, 37636, 65288, 21547, 32147, 32239, 24230, 65289] @
     ascii ''20230825.xlsx''\<close>

text \<open>\<^verbatim>\<open>CENTER_EXCEL.name\<close>, the last component of the park-centre list's path\<close>

definition CENTER_EXCEL_name :: pystr where
  \<open>CENTER_EXCEL_name =
     [22290, 21312, 21517, 21934, 21450, 24231, 27161] @ ascii ''_114.06.05.xlsx''\<close>

text \<open>\<^verbatim>\<open>"data"\<close>\<close>

definition OUTPUT_DIR :: pystr where
  \<open>OUTPUT_DIR =
     ascii ''data''\<close>

text \<open>\<^verbatim>\<open>"index.html"\<close>\<close>

definition OUTPUT_HTML :: pystr where
  \<open>OUTPUT_HTML =
     ascii ''index.html''\<close>

text \<open>The basic-info sheet, \<^verbatim>\<open>"\u5de5\u696d\u5340\u57fa\u672c\u8cc7\u6599"\<close>\<close>

definition BASIC_INFO_SHEET :: pystr where
  \<open>BASIC_INFO_SHEET =
     [24037, 26989, 21312, 22522, 26412, 36039, 26009]\<close>

text \<open>The measurement sheet, \<^verbatim>\<open>"\u91cf\u6e2c\u8cc7\u6599"\<close>\<close>

definition MEAS_SHEET :: pystr where
  \<open>MEAS_SHEET =
     [37327, 28204, 36039, 26009]\<close>

text \<open>\<^verbatim>\<open>"StartTime"\<close>\<close>

definition START_TIME :: pystr where
  \<open>START_TIME =
     ascii ''StartTime''\<close>

text \<open>The park-name key, \<^verbatim>\<open>"\u5de5\u696d\u5340\u540d\u7a31"\<close>\<close>

definition KEY_NAME :: pystr where
  \<open>KEY_NAME =
     [24037, 26989, 21312, 21517, 31281]\<close>

text \<open>The centre-longitude key, \<^verbatim>\<open>"\u5de5\u696d\u5340\u4e2d\u5fc3\u7d93\u5ea6"\<close>\<close>

definition KEY_LON :: pystr where
  \<open>KEY_LON =
     [24037, 26989, 21312, 20013, 24515, 32147, 24230]\<close>

text \<open>The centre-latitude key, \<^verbatim>\<open>"\u5de5\u696d\u5340\u4e2d\u5fc3\u7def\u5ea6"\<close>\<close>

definition KEY_LAT :: pystr where
  \<open>KEY_LAT =
     [24037, 26989, 21312, 20013, 24515, 32239, 24230]\<close>

text \<open>The monitoring-period key, \<^verbatim>\<open>"\u76e3\u6e2c\u671f\u9593"\<close>\<close>

definition KEY_PERIOD :: pystr where
  \<open>KEY_PERIOD =
     [30435, 28204, 26399, 38291]\<close>

text \<open>The data-type key, \<^verbatim>\<open>"\u8cc7\u6599\u985e\u578b"\<close>\<close>

definition KEY_TYPE :: pystr where
  \<open>KEY_TYPE =
     [36039, 26009, 39006, 22411]\<close>

text \<open>The note key, \<^verbatim>\<open>"\u5099\u8a3b"\<close>\<close>

definition KEY_NOTE :: pystr where
  \<open>KEY_NOTE =
     [20633, 35387]\<close>

text \<open>The placeholder "(not filled in)", \<^verbatim>\<open>"\uff08\u672a\u586b\uff09"\<close>\<close>

definition UNFILLED :: pystr where
  \<open>UNFILLED =
     [65288, 26410, 22635, 65289]\<close>

text \<open>\<^verbatim>\<open>"N"\<close>\<close>

definition COL_N :: pystr where
  \<open>COL_N =
     ascii ''N''\<close>

text \<open>\<^verbatim>\<open>"E"\<close>\<close>

definition COL_E :: pystr where
  \<open>COL_E =
     ascii ''E''\<close>

text \<open>The school-name column, \<^verbatim>\<open>"\u5b78\u6821\u540d\u7a31"\<close>\<close>

definition COL_SCHOOL_NAME :: pystr where
  \<open>COL_SCHOOL_NAME =
     [23416, 26657, 21517, 31281]\<close>

text \<open>The latitude column of the park-centre list, \<^verbatim>\<open>"\u5ea7\u6a19(\u7def\u5ea6)"\<close>\<close>

definition COL_CENTER_LAT :: pystr where
  \<open>COL_CENTER_LAT =
     [24231, 27161] @ ascii ''('' @ [32239, 24230] @ ascii '')''\<close>

text \<open>The longitude column of the park-centre list, \<^verbatim>\<open>"\u5ea7\u6a19(\u7d93\u5ea6)"\<close>\<close>

definition COL_CENTER_LON :: pystr where
  \<open>COL_CENTER_LON =
     [24231, 27161] @ ascii ''('' @ [32147, 24230] @ ascii '')''\<close>

text \<open>The name column of the park-centre list, \<^verbatim>\<open>"\u5712\u5340\u540d\u7a31(\u6bd4\u5c0d)"\<close>\<close>

definition COL_CENTER_NAME :: pystr where
  \<open>COL_CENTER_NAME =
     [22290, 21312, 21517, 31281] @ ascii ''('' @ [27604, 23565] @ ascii '')''\<close>

text \<open>Layer name "county boundaries", \<^verbatim>\<open>"\u7e23\u5e02\u908a\u754c"\<close>\<close>

definition NAME_COUNTY :: pystr where
  \<open>NAME_COUNTY =
     [32291, 24066, 37002, 30028]\<close>

text \<open>Layer name "industrial park areas", \<^verbatim>\<open>"\u7522\u696d\u5712\u5340\u7bc4\u570d"\<close>\<close>

definition NAME_INDUSTRIAL :: pystr where
  \<open>NAME_INDUSTRIAL =
     [29986, 26989, 22290, 21312, 31684, 22285]\<close>

text \<open>Layer name "schools", \<^verbatim>\<open>"\u5b78\u6821"\<close>\<close>

definition NAME_SCHOOL :: pystr where
  \<open>NAME_SCHOOL =
     [23416, 26657]\<close>

text \<open>Layer name "park centres", \<^verbatim>\<open>"\u5168\u53f0\u5de5\u696d\u5340\u4e2d\u5fc3\u9ede"\<close>\<close>

definition NAME_CENTER :: pystr where
  \<open>NAME_CENTER =
     [20840, 21488, 24037, 26989, 21312, 20013, 24515, 40670]\<close>

text \<open>\<^verbatim>\<open>"requirements.txt"\<close>\<close>

definition REQUIREMENTS_TXT :: pystr where
  \<open>REQUIREMENTS_TXT =
     ascii ''requirements.txt''\<close>

text \<open>\<^verbatim>\<open>".DS_Store"\<close>\<close>

definition DS_STORE :: pystr where
  \<open>DS_STORE =
     ascii ''.DS_Store''\<close>

text \<open>Layer name "analysis targets (with feedback)", \<^verbatim>\<open>"\U0001f4cc \u5206\u6790\u76ee\u6a19 (\u542b\u56de\u994b)"\<close>\<close>

definition NAME_TARGET :: pystr where
  \<open>NAME_TARGET =
     [128204] @ ascii '' '' @ [20998, 26512, 30446, 27161] @ ascii '' ('' @
     [21547, 22238, 39243] @ ascii '')''\<close>
section \<open>The interpreter and the libraries, as far as the program uses them\<close>

subsection \<open>str and float\<close>

text \<open>\<^verbatim>\<open>str(n)\<close> of an integer: its decimal digits.\<close>

fun digits :: "nat \<Rightarrow> pystr" where
  "digits n = (if n < 10 then [48 + n] else digits (n div 10) @ [48 + n mod 10])"

declare digits.simps [simp del]

definition str_of_nat :: "nat \<Rightarrow> pystr" where
  "str_of_nat n = digits n"

definition str_of_int :: "int \<Rightarrow> pystr" where
  "str_of_int i = (if i < 0 then 45 # digits (nat (- i)) else digits (nat i))"

text \<open>\<^verbatim>\<open>str(v)\<close> of a cell value.\<close>

fun py_str :: "pylib \<Rightarrow> cell \<Rightarrow> pystr" where
  "py_str L CNone = ascii ''None''"
| "py_str L (CBool b) = (if b then ascii ''True'' else ascii ''False'')"
| "py_str L (CInt i) = str_of_int i"
| "py_str L (CFloat f) = str_of_float L f"
| "py_str L (CStr s) = s"
| "py_str L (CTime t) = str_of_time L t"
| "py_str L CNaT = ascii ''NaT''"

text \<open>
  \<^verbatim>\<open>float(v)\<close>: a float is returned as it is (a NaN included), a bool and an int are
  converted (an int beyond the float range raises OverflowError), a string is parsed or raises
  ValueError, and \<^verbatim>\<open>None\<close> and timestamps raise TypeError.
\<close>

fun py_float :: "pylib \<Rightarrow> cell \<Rightarrow> py_error + pyfloat" where
  "py_float L CNone = Inl (TypeError (ascii ''float() argument must be a string or a real number''))"
| "py_float L (CBool b) = Inr (Finite (if b then 1 else 0))"
| "py_float L (CInt i) =
     (if \<bar>i\<bar> < 2 ^ 1024 - 2 ^ 970 then Inr (Finite (real_of_int i))
      else Inl (OverflowError (ascii ''int too large to convert to float'')))"
| "py_float L (CFloat f) = Inr f"
| "py_float L (CStr s) =
     (case float_of_str L s of
        None \<Rightarrow> Inl (ValueError (ascii ''could not convert string to float''))
      | Some f \<Rightarrow> Inr f)"
| "py_float L (CTime t) = Inl (TypeError (ascii ''float() argument must be a string or a real number''))"
| "py_float L CNaT = Inl (TypeError (ascii ''float() argument must be a string or a real number''))"

text \<open>\<^verbatim>\<open>pd.isnull\<close>: \<^verbatim>\<open>None\<close>, NaN and NaT are the missing values.\<close>

fun isnull :: "cell \<Rightarrow> bool" where
  "isnull CNone = True"
| "isnull (CFloat NaN) = True"
| "isnull CNaT = True"
| "isnull _ = False"

definition notnull :: "cell \<Rightarrow> bool" where
  "notnull c = (\<not> isnull c)"

subsection \<open>Paths\<close>

text \<open>
  \<^verbatim>\<open>PurePath.stem\<close>: the name up to its last dot, unless that dot is the first or the last
  character of the name.
\<close>

definition rfind :: "nat \<Rightarrow> pystr \<Rightarrow> nat option" where
  "rfind c s =
     (if c \<in> set s then Some (length s - 1 - length (takeWhile (\<lambda>x. x \<noteq> c) (rev s))) else None)"

definition path_stem :: "pystr \<Rightarrow> pystr" where
  "path_stem name =
     (case rfind 46 name of
        None \<Rightarrow> name
      | Some i \<Rightarrow> if 0 < i \<and> i < length name - 1 then take i name else name)"

text \<open>\<^verbatim>\<open>data_dir / meas_filename\<close>, for a file name without a slash.\<close>

definition path_join :: "pystr \<Rightarrow> pystr \<Rightarrow> pystr" where
  "path_join dir name = dir @ ascii ''/'' @ name"

subsection \<open>Data frames and workbooks\<close>

text \<open>
  A data frame: the column labels and the rows, each row as wide as the labels.  A cell beyond
  a row's width reads as the empty cell.
\<close>

record dataframe =
  columns :: "cell list"
  rows :: "cell list list"

definition cell_at :: "cell list \<Rightarrow> nat \<Rightarrow> cell" where
  "cell_at r i = (if i < length r then r ! i else CFloat NaN)"

fun index_of :: "cell \<Rightarrow> cell list \<Rightarrow> nat option" where
  "index_of c [] = None"
| "index_of c (d # ds) = (if c = d then Some 0 else map_option Suc (index_of c ds))"

text \<open>\<^verbatim>\<open>r.get(label)\<close> on a row of \<^verbatim>\<open>iterrows()\<close>: \<^verbatim>\<open>None\<close> without that column.\<close>

definition row_get :: "dataframe \<Rightarrow> cell list \<Rightarrow> pystr \<Rightarrow> cell" where
  "row_get df r label =
     (case index_of (CStr label) (columns df) of None \<Rightarrow> CNone | Some i \<Rightarrow> cell_at r i)"

text \<open>
  An opened workbook (\<^verbatim>\<open>pd.ExcelFile\<close>): its sheets in order, each with what
  \<^verbatim>\<open>pd.read_excel\<close> makes of it, a frame or an exception.
\<close>

type_synonym workbook = "(pystr \<times> (py_error + dataframe)) list"

definition sheet_names :: "workbook \<Rightarrow> pystr list" where
  "sheet_names xl = map fst xl"

definition read_excel :: "workbook \<Rightarrow> pystr \<Rightarrow> py_error + dataframe" where
  "read_excel xl name =
     (case map_of xl name of
        None \<Rightarrow> Inl (ValueError (ascii ''Worksheet not found''))
      | Some r \<Rightarrow> r)"

text \<open>
  Lines 57 to 59: \<^verbatim>\<open>df.columns[0]\<close> and \<^verbatim>\<open>df.columns[1]\<close> raise IndexError on a frame with
  fewer than two columns; \<^verbatim>\<open>df.set_index(key_col)[val_col].to_dict()\<close> maps each value of the
  first column to the value beside it, a later row replacing an earlier one with the same key.
  The program looks up string keys only, for which equality of cells is Python's.
\<close>

definition to_dict :: "dataframe \<Rightarrow> py_error + (cell \<rightharpoonup> cell)" where
  "to_dict df =
     (if length (columns df) < 2 then Inl (IndexError (ascii ''index out of bounds''))
      else Inr (foldl (\<lambda>m r. m(cell_at r 0 \<mapsto> cell_at r 1)) Map.empty (rows df)))"

text \<open>\<^verbatim>\<open>m.get(key)\<close> and \<^verbatim>\<open>m.get(key, default)\<close>\<close>

definition dict_get :: "(cell \<rightharpoonup> cell) \<Rightarrow> pystr \<Rightarrow> cell \<Rightarrow> cell" where
  "dict_get m key dflt = (case m (CStr key) of None \<Rightarrow> dflt | Some v \<Rightarrow> v)"

text \<open>
  \<^verbatim>\<open>DataFrame.sort_values(by)\<close>, ascending with the missing values last: KeyError without
  the column; TypeError, with the library's message, when the values present are not
  comparable with each other (numbers with numbers, strings with strings, timestamps with
  timestamps).  Strings compare by code point.  The library's default sort is not stable: the
  order among rows of equal key is the library's.  So the rows with a value are sorted after
  the rearrangement \<open>tie_order\<close> that the library chooses (a value of \<open>tie_order\<close> that is no
  rearrangement of its argument is passed over); every order of the rows that is sorted by key
  comes about from some choice.  The rows without a value follow in the frame's order.
\<close>

datatype ckind = KNum | KStr | KTime

fun cell_kind :: "cell \<Rightarrow> ckind" where
  "cell_kind (CStr s) = KStr"
| "cell_kind (CTime t) = KTime"
| "cell_kind CNaT = KTime"
| "cell_kind _ = KNum"

fun sort_rank :: "cell \<Rightarrow> (int \<times> real) \<times> pystr \<times> int" where
  "sort_rank (CBool b) = ((0, if b then 1 else 0), [], 0)"
| "sort_rank (CInt i) = ((0, real_of_int i), [], 0)"
| "sort_rank (CFloat (Finite x)) = ((0, x), [], 0)"
| "sort_rank (CFloat PosInf) = ((1, 0), [], 0)"
| "sort_rank (CFloat NegInf) = ((- 1, 0), [], 0)"
| "sort_rank (CStr s) = ((0, 0), s, 0)"
| "sort_rank (CTime t) = ((0, 0), [], t)"
| "sort_rank _ = ((0, 0), [], 0)"

definition comparable :: "cell list \<Rightarrow> bool" where
  "comparable cs = (case cs of [] \<Rightarrow> True | c # _ \<Rightarrow> list_all (\<lambda>d. cell_kind d = cell_kind c) cs)"

definition rearranged :: "pylib \<Rightarrow> cell list list \<Rightarrow> cell list list" where
  "rearranged L rs = (if mset (tie_order L rs) = mset rs then tie_order L rs else rs)"

definition sort_values :: "pylib \<Rightarrow> dataframe \<Rightarrow> pystr \<Rightarrow> py_error + dataframe" where
  "sort_values L df col =
     (case index_of (CStr col) (columns df) of
        None \<Rightarrow> Inl (KeyError col)
      | Some i \<Rightarrow>
          (let present = filter (\<lambda>r. notnull (cell_at r i)) (rows df);
               missing = filter (\<lambda>r. isnull (cell_at r i)) (rows df)
           in if comparable (map (\<lambda>r. cell_at r i) present)
              then Inr (df\<lparr>rows := sort_key (\<lambda>r. sort_rank (cell_at r i)) (rearranged L present) @
                                      missing\<rparr>)
              else Inl (TypeError (sort_error_msg L (map (\<lambda>r. cell_at r i) present)))))"

text \<open>
  \<^verbatim>\<open>DataFrame.to_html(index=False, border=0, classes="table")\<close>: a header row of the labels,
  then one \<^verbatim>\<open>tr\<close> element for each row of the frame, in the frame's order.  With
  \<^verbatim>\<open>border=0\<close> the table tag has no border attribute.
\<close>

definition html_tr :: "pylib \<Rightarrow> pystr \<Rightarrow> pystr \<Rightarrow> cell list \<Rightarrow> pystr" where
  \<open>html_tr L tr_open tag r =
     tr_open @ nl @
     concat (map (\<lambda>c. ascii ''      <'' @ tag @ ascii ''>'' @ html_cell L c @
                       ascii ''</'' @ tag @ ascii ''>'' @ nl) r) @
     ascii ''    </tr>'' @ nl\<close>

definition html_body :: "pylib \<Rightarrow> cell list list \<Rightarrow> pystr" where
  "html_body L rs = concat (map (html_tr L (ascii ''    <tr>'') (ascii ''td'')) rs)"

definition to_html :: "pylib \<Rightarrow> dataframe \<Rightarrow> pystr" where
  \<open>to_html L df =
     ascii ''<table class="dataframe table">'' @ nl @
     ascii ''  <thead>'' @ nl @
     html_tr L (ascii ''    <tr style="text-align: right;">'') (ascii ''th'') (columns df) @
     ascii ''  </thead>'' @ nl @
     ascii ''  <tbody>'' @ nl @ html_body L (rows df) @ ascii ''  </tbody>'' @ nl @
     ascii ''</table>''\<close>

section \<open>The program\<close>

text \<open>The dictionary that \<^verbatim>\<open>read_park_xlsx\<close> returns (lines 108 to 116); \<open>note_text\<close> is its key \<^verbatim>\<open>note\<close>.\<close>

record park =
  park_name :: pystr
  lon :: pyfloat
  lat :: pyfloat
  monitoring_period :: pystr
  data_type :: pystr
  note_text :: pystr
  raw_page_href :: pystr

text \<open>The warning of line 72, "coordinates malformed, skipped": \<^verbatim>\<open>f"\u26a0\ufe0f {park_name} ({path.name}) \u7d93\u7def\u5ea6\u683c\u5f0f\u932f\u8aa4\uff0c\u8df3\u904e\u3002"\<close>\<close>

definition coord_warning :: "pystr \<Rightarrow> pystr \<Rightarrow> pystr" where
  \<open>coord_warning name path_name =
     [9888, 65039] @ ascii '' '' @ name @ ascii '' ('' @ path_name @ ascii '') '' @
     [32147, 32239, 24230, 26684, 24335, 37679, 35492, 65292, 36339, 36942, 12290]\<close>

text \<open>The warning of line 106, "measurement page generation failed": \<^verbatim>\<open>f"\u26a0\ufe0f {park_name} \u91cf\u6e2c\u8cc7\u6599\u751f\u6210\u5931\u6557: {e}"\<close>\<close>

definition meas_warning :: "pystr \<Rightarrow> py_error \<Rightarrow> pystr" where
  \<open>meas_warning name e =
     [9888, 65039] @ ascii '' '' @ name @ ascii '' '' @
     [37327, 28204, 36039, 26009, 29983, 25104, 22833, 25943] @ ascii '': '' @ err_msg e\<close>

text \<open>Line 84: \<^verbatim>\<open>f"{safe_slug(park_name)}_\u91cf\u6e2c\u8cc7\u6599.html"\<close>\<close>

definition meas_filename :: "pylib \<Rightarrow> pystr \<Rightarrow> pystr" where
  \<open>meas_filename L name =
     safe_slug L name @ ascii ''_'' @ [37327, 28204, 36039, 26009] @ ascii ''.html''\<close>

text \<open>Lines 89 to 102, the detail page around the table (title and heading carry the park name).\<close>

definition page_html :: "pystr \<Rightarrow> pystr \<Rightarrow> pystr" where
  \<open>page_html name table_html =
     ascii ''<!doctype html>'' @ nl @ ascii ''            <html lang="zh-Hant">'' @ nl @
     ascii ''            <head>'' @ nl @ ascii ''            <meta charset="utf-8">'' @ nl @
     ascii ''            <meta name="viewport" content="width=device-width, initial'' @
     ascii ''-scale=1">'' @ nl @ ascii ''            <title>'' @ name @ ascii '' - '' @
     [37327, 28204, 36039, 26009] @ ascii ''</title>'' @ nl @
     ascii ''            <link href="https://cdn.jsdelivr.net/npm/bootstrap@5.1.3/d'' @
     ascii ''ist/css/bootstrap.min.css" rel="stylesheet">'' @ nl @
     ascii ''            </head>'' @ nl @ ascii ''            <body class="p-3">'' @ nl @
     ascii ''            <h3>'' @ name @ [65372, 37327, 28204, 36039, 26009] @
     ascii ''</h3>'' @ nl @
     ascii ''            <div class="table-responsive" style="max-height: 90vh;">'' @ nl @
     ascii ''                '' @ table_html @ nl @ ascii ''            </div>'' @ nl @
     ascii ''            </body></html>''\<close>

text \<open>Line 104: \<^verbatim>\<open>f"./data/{meas_filename}"\<close>\<close>

definition page_href :: "pystr \<Rightarrow> pystr" where
  \<open>page_href filename =
     ascii ''./data/'' @ filename\<close>

text \<open>Line 125, the link to the detail page.\<close>

definition btn_html_of :: "pystr \<Rightarrow> pystr" where
  \<open>btn_html_of href =
     ascii ''<a href="'' @ href @
     ascii ''" target="_blank" style="color:white;background:#0d6efd;padding:4px 8p'' @
     ascii ''x;text-decoration:none;border-radius:4px;font-size:12px;">'' @
     [26597, 30475, 21407, 22987, 36039, 26009] @ ascii ''</a>''\<close>

text \<open>Lines 128 to 134, the feedback form of one popup.\<close>

definition feedback_html_of :: "pystr \<Rightarrow> pystr" where
  \<open>feedback_html_of pid =
     nl @ ascii ''    <div style="margin-top:8px;border-top:1px solid #ccc;padding-top:8'' @
     ascii ''px;">'' @ nl @ ascii ''        <textarea id="fb_'' @ pid @
     ascii ''" rows="2" style="width:100%;font-size:12px;" placeholder="'' @
     [36664, 20837, 22238, 39243] @ ascii ''..."></textarea>'' @ nl @
     ascii ''        <button onclick="sendFeedback('' @ [39] @ pid @ [39] @
     ascii '')" style="margin-top:4px;font-size:12px;cursor:pointer;">'' @ [36865, 20986] @
     ascii ''</button>'' @ nl @ ascii ''        <span id="msg_'' @ pid @
     ascii ''" style="font-size:11px;color:green;"></span>'' @ nl @ ascii ''    </div>'' @ nl @
     ascii ''    ''\<close>

text \<open>Lines 118 to 145.\<close>

definition create_popup_html :: "pylib \<Rightarrow> park \<Rightarrow> pystr" where
  \<open>create_popup_html L park =
     (let pid = safe_slug L (park_name park);
          btn_html = (if raw_page_href park \<noteq> [] then btn_html_of (raw_page_href park) else []);
          feedback_html = feedback_html_of pid
      in
       nl @ ascii ''    <div style="font-family:sans-serif;font-size:13px;min-width:250px;'' @
       ascii ''">'' @ nl @ ascii ''        <h5 style="margin:0 0 8px 0;">'' @ park_name park @
       ascii ''</h5>'' @ nl @ ascii ''        <div><b>'' @ [30435, 28204, 26399, 38291] @
       ascii '':</b> '' @ monitoring_period park @ ascii ''</div>'' @ nl @
       ascii ''        <div><b>'' @ [20633, 35387] @ ascii '':</b> '' @ note_text park @
       ascii ''</div>'' @ nl @ ascii ''        <div style="margin-top:6px;">'' @ btn_html @
       ascii ''</div>'' @ nl @ ascii ''        '' @ feedback_html @ nl @
       ascii ''        <div id="meta_'' @ pid @ ascii ''" data-park="'' @ park_name park @
       ascii ''" data-lat="'' @ str_of_float L (lat park) @ ascii ''" data-lon="'' @
       str_of_float L (lon park) @ ascii ''" style="display:none;"></div>'' @ nl @
       ascii ''    </div>'' @ nl @ ascii ''    '')\<close>

text \<open>Line 151, "building the map": \<^verbatim>\<open>"\U0001f680 \u958b\u59cb\u5efa\u7acb\u5730\u5716..."\<close>\<close>

definition MSG_START :: pystr where
  \<open>MSG_START =
     [128640] @ ascii '' '' @ [38283, 22987, 24314, 31435, 22320, 22294] @ ascii ''...''\<close>

text \<open>Line 164, "loading the county boundaries failed": \<^verbatim>\<open>f"\u26a0\ufe0f \u8f09\u5165\u7e23\u5e02\u908a\u754c\u5931\u6557: {e}"\<close>\<close>

definition county_warning :: "py_error \<Rightarrow> pystr" where
  \<open>county_warning e =
     [9888, 65039] @ ascii '' '' @ [36617, 20837, 32291, 24066, 37002, 30028, 22833, 25943] @
     ascii '': '' @ err_msg e\<close>

text \<open>Line 201, "found n Excel files": \<^verbatim>\<open>f"\U0001f4c2 \u627e\u5230 {len(all_excels)} \u500b Excel \u6a94\uff0c\u958b\u59cb\u6383\u63cf..."\<close>\<close>

definition msg_found :: "nat \<Rightarrow> pystr" where
  \<open>msg_found n =
     [128194] @ ascii '' '' @ [25214, 21040] @ ascii '' '' @ str_of_nat n @ ascii '' '' @
     [20491] @ ascii '' Excel '' @ [27284, 65292, 38283, 22987, 25475, 25551] @ ascii ''...''\<close>

text \<open>Line 212, "loaded": \<^verbatim>\<open>f"  \u2705 \u6210\u529f\u8f09\u5165: {data['park_name']}"\<close>\<close>

definition msg_loaded :: "pystr \<Rightarrow> pystr" where
  \<open>msg_loaded name =
     ascii ''  '' @ [9989] @ ascii '' '' @ [25104, 21151, 36617, 20837] @ ascii '': '' @ name\<close>

text \<open>Line 223, "done, n target parks added": \<^verbatim>\<open>f"\U0001f389 \u8655\u7406\u5b8c\u6210\uff01\u5171\u52a0\u5165 {count} \u500b\u76ee\u6a19\u5de5\u696d\u5340\u3002"\<close>\<close>

definition msg_done :: "nat \<Rightarrow> pystr" where
  \<open>msg_done n =
     [127881] @ ascii '' '' @ [34389, 29702, 23436, 25104, 65281, 20849, 21152, 20837] @
     ascii '' '' @ str_of_nat n @ ascii '' '' @
     [20491, 30446, 27161, 24037, 26989, 21312, 12290]\<close>

text \<open>Line 260, "map saved as": \<^verbatim>\<open>f"\U0001f4be \u5730\u5716\u5df2\u5b58\u70ba {OUTPUT_HTML}"\<close>\<close>

definition msg_saved :: "pystr" where
  \<open>msg_saved  =
     [128190] @ ascii '' '' @ [22320, 22294, 24050, 23384, 28858] @ ascii '' '' @ OUTPUT_HTML\<close>

text \<open>Lines 226 to 255, the script block injected once into the document.\<close>

definition feedback_js :: pystr where
  \<open>feedback_js =
     nl @ ascii ''    <script>'' @ nl @
     ascii ''    const GAS_URL = "https://script.google.com/macros/s/AKfycby5yDZnSr'' @
     ascii ''ExZyGm3xZzgpFwZbS-877qCAVUsn8BPe9-BuY0ZkzvAC_r04p39GXv9rUs_A/exec";'' @ nl @
     ascii ''    async function sendFeedback(pid){'' @ nl @
     ascii ''        const meta = document.getElementById("meta_"+pid);'' @ nl @
     ascii ''        const txt = document.getElementById("fb_"+pid).value;'' @ nl @
     ascii ''        const msg = document.getElementById("msg_"+pid);'' @ nl @
     ascii ''        if(!txt) return alert("'' @ [35531, 36664, 20837, 20839, 23481] @
     ascii ''");'' @ nl @ ascii ''        '' @ nl @ ascii ''        msg.innerText = "'' @
     [20659, 36865, 20013] @ ascii ''...";'' @ nl @
     ascii ''        const form = new URLSearchParams();'' @ nl @
     ascii ''        form.append("timestamp", new Date().toISOString());'' @ nl @
     ascii ''        form.append("park", meta.dataset.park);'' @ nl @
     ascii ''        form.append("lat", meta.dataset.lat);'' @ nl @
     ascii ''        form.append("lon", meta.dataset.lon);'' @ nl @
     ascii ''        form.append("feedback", txt);'' @ nl @
     ascii ''        form.append("page_url", location.href);'' @ nl @ ascii ''        '' @ nl @
     ascii ''        try {'' @ nl @
     ascii ''            await fetch(GAS_URL, {method:"POST", mode:"no-cors", body:'' @
     ascii ''form});'' @ nl @ ascii ''            msg.innerText = "'' @ [9989] @ ascii '' '' @
     [24050, 36865, 20986] @ ascii ''";'' @ nl @
     ascii ''            msg.style.color = "green";'' @ nl @
     ascii ''            document.getElementById("fb_"+pid).value = "";'' @ nl @
     ascii ''        } catch(e) {'' @ nl @ ascii ''            msg.innerText = "'' @ [10060] @
     ascii '' '' @ [22833, 25943] @ ascii ''";'' @ nl @
     ascii ''            msg.style.color = "red";'' @ nl @ ascii ''        }'' @ nl @
     ascii ''    }'' @ nl @ ascii ''    </script>'' @ nl @ ascii ''    ''\<close>
subsection \<open>The map document\<close>

text \<open>
  What folium builds: markers with a validated location, layers, and the document with its
  children in the order they were added.  \<^verbatim>\<open>validate_location\<close> raises ValueError for a
  coordinate that \<^verbatim>\<open>float\<close> rejects and for a NaN.  The base map of line 154 (centre,
  zoom and tiles) is the same in every run and is left out.
\<close>

type_synonym geojson = pystr

datatype marker =
    CircleMarker "pyfloat \<times> pyfloat" "pystr option"
  | Marker "pyfloat \<times> pyfloat" pystr pystr

datatype layer = GeoJson pystr geojson | FeatureGroup pystr "marker list"

record map_doc =
  children :: "layer list"
  html_children :: "pystr list"
  layer_control :: bool

definition validate_coord :: "pylib \<Rightarrow> cell \<Rightarrow> py_error + pyfloat" where
  "validate_coord L c =
     (case py_float L c of
        Inl (OverflowError m) \<Rightarrow> Inl (OverflowError m)
      | Inl _ \<Rightarrow> Inl (ValueError (ascii ''Location should consist of two numerical values''))
      | Inr NaN \<Rightarrow> Inl (ValueError (ascii ''Location values cannot contain NaNs.''))
      | Inr f \<Rightarrow> Inr f)"

definition validate_location :: "pylib \<Rightarrow> cell \<Rightarrow> cell \<Rightarrow> py_error + pyfloat \<times> pyfloat" where
  "validate_location L a b =
     (case validate_coord L a of
        Inl e \<Rightarrow> Inl e
      | Inr x \<Rightarrow> (case validate_coord L b of Inl e \<Rightarrow> Inl e | Inr y \<Rightarrow> Inr (x, y)))"

text \<open>\<^verbatim>\<open>folium.CircleMarker([a, b], popup=p)\<close>: no popup for \<^verbatim>\<open>None\<close>, else \<^verbatim>\<open>str(p)\<close>.\<close>

definition folium_CircleMarker :: "pylib \<Rightarrow> cell \<Rightarrow> cell \<Rightarrow> cell \<Rightarrow> py_error + marker" where
  "folium_CircleMarker L a b p =
     (case validate_location L a b of
        Inl e \<Rightarrow> Inl e
      | Inr loc \<Rightarrow> Inr (CircleMarker loc (if p = CNone then None else Some (py_str L p))))"

text \<open>\<^verbatim>\<open>folium.Marker([a, b], popup=folium.Popup(html), tooltip=name)\<close>\<close>

definition folium_Marker :: "pylib \<Rightarrow> pyfloat \<Rightarrow> pyfloat \<Rightarrow> pystr \<Rightarrow> pystr \<Rightarrow> py_error + marker" where
  "folium_Marker L a b html name =
     (case validate_location L (CFloat a) (CFloat b) of
        Inl e \<Rightarrow> Inl e
      | Inr loc \<Rightarrow> Inr (Marker loc html name))"

subsection \<open>The environment and the effects\<close>

text \<open>
  What a run finds on disk: each background source absent, unreadable or read; the files that
  \<^verbatim>\<open>Path(".").glob("*.xlsx")\<close> lists, each with its name and with what \<^verbatim>\<open>pd.ExcelFile\<close>
  makes of it; and which directory creations and file writes fail, the saving of the map
  document among them.
\<close>

datatype 'a source = Absent | Present "py_error + 'a"

record xlsx_file =
  fname :: pystr
  opened :: "py_error + workbook"

record env =
  county :: "geojson source"
  industrial :: "geojson source"
  school :: "dataframe source"
  center :: "dataframe source"
  all_excels :: "xlsx_file list"
  mkdir_err :: "pystr \<Rightarrow> py_error option"
  write_err :: "pystr \<Rightarrow> py_error option"

text \<open>What a run does to the outside, in order: lines printed, directories and files written.\<close>

datatype event =
    Print pystr
  | Mkdir pystr
  | WriteText pystr pystr
  | SaveMap pystr map_doc

subsection \<open>read_park_xlsx\<close>

text \<open>
  Lines 63 to 65, the inner function \<^verbatim>\<open>get_str\<close> over the dictionary \<open>m\<close>:
  \<^verbatim>\<open>v = m.get(key, default); return "" if v is None else str(v)\<close>.
\<close>

definition get_str :: "pylib \<Rightarrow> (cell \<rightharpoonup> cell) \<Rightarrow> pystr \<Rightarrow> pystr \<Rightarrow> pystr" where
  "get_str L m key dflt =
     (let v = dict_get m key (CStr dflt) in if v = CNone then [] else py_str L v)"

text \<open>
  Lines 79 to 104, the body of the \<^verbatim>\<open>try\<close> that writes the detail page: the events it
  caused, and the link it assigned to \<^verbatim>\<open>raw_page_href\<close> or the exception that left it.
\<close>

definition detail_page :: "pylib \<Rightarrow> env \<Rightarrow> workbook \<Rightarrow> pystr \<Rightarrow> event list \<times> (py_error + pystr)" where
  "detail_page L E xl name =
     (case read_excel xl MEAS_SHEET of
        Inl e \<Rightarrow> ([], Inl e)
      | Inr meas_df \<Rightarrow>
          (case (if CStr START_TIME \<in> set (columns meas_df)
                 then sort_values L meas_df START_TIME else Inr meas_df) of
             Inl e \<Rightarrow> ([], Inl e)
           | Inr meas_df \<Rightarrow>
               (case mkdir_err E OUTPUT_DIR of
                  Some e \<Rightarrow> ([], Inl e)
                | None \<Rightarrow>
                    (let meas_path = path_join OUTPUT_DIR (meas_filename L name);
                         table_html = to_html L meas_df
                     in case write_err E meas_path of
                          Some e \<Rightarrow> ([Mkdir OUTPUT_DIR], Inl e)
                        | None \<Rightarrow>
                            ([Mkdir OUTPUT_DIR, WriteText meas_path (page_html name table_html)],
                             Inr (page_href (meas_filename L name)))))))"

text \<open>
  Lines 43 to 116.  The result is the events of the call and the returned dictionary, \<open>None\<close>
  for \<^verbatim>\<open>return None\<close>.  No exception leaves the function: each of its three \<^verbatim>\<open>try\<close> blocks
  catches what its body raises.
\<close>

definition read_park_xlsx :: "pylib \<Rightarrow> env \<Rightarrow> xlsx_file \<Rightarrow> event list \<times> park option" where
  "read_park_xlsx L E path =
     (case opened path of
        Inl e \<Rightarrow> ([], None)
      | Inr xl \<Rightarrow>
          if BASIC_INFO_SHEET \<notin> set (sheet_names xl) then ([], None)
          else
            (case read_excel xl BASIC_INFO_SHEET of
               Inl e \<Rightarrow> ([], None)
             | Inr df \<Rightarrow>
                 (case to_dict df of
                    Inl e \<Rightarrow> ([], None)
                  | Inr m \<Rightarrow>
                      (let name = get_str L m KEY_NAME (path_stem (fname path)) in
                       case py_float L (dict_get m KEY_LON CNone) of
                         Inl e \<Rightarrow> ([Print (coord_warning name (fname path))], None)
                       | Inr lon_v \<Rightarrow>
                           (case py_float L (dict_get m KEY_LAT CNone) of
                              Inl e \<Rightarrow> ([Print (coord_warning name (fname path))], None)
                            | Inr lat_v \<Rightarrow>
                                (let (evs, href) =
                                       (if MEAS_SHEET \<in> set (sheet_names xl)
                                        then (case detail_page L E xl name of
                                                (ev, Inl e) \<Rightarrow> (ev @ [Print (meas_warning name e)], [])
                                              | (ev, Inr h) \<Rightarrow> (ev, h))
                                        else ([], []))
                                 in (evs,
                                     Some \<lparr>park_name = name, lon = lon_v, lat = lat_v,
                                            monitoring_period = get_str L m KEY_PERIOD UNFILLED,
                                            data_type = get_str L m KEY_TYPE UNFILLED,
                                            note_text = get_str L m KEY_NOTE UNFILLED,
                                            raw_page_href = href\<rparr>)))))))"

subsection \<open>main\<close>

text \<open>Lines 25 to 30.\<close>

definition EXCLUDE_FILES :: "pystr list" where
  "EXCLUDE_FILES = [SCHOOL_EXCEL_name, CENTER_EXCEL_name, REQUIREMENTS_TXT, DS_STORE]"

text \<open>
  Lines 158 to 164 and 167 to 171: a boundary layer is added when its file exists and loads.
  A failure of the county layer is printed, one of the industrial layer is passed over.
\<close>

definition county_layer :: "env \<Rightarrow> event list \<times> layer list" where
  "county_layer E =
     (case county E of
        Absent \<Rightarrow> ([], [])
      | Present (Inl e) \<Rightarrow> ([Print (county_warning e)], [])
      | Present (Inr g) \<Rightarrow> ([], [GeoJson NAME_COUNTY g]))"

definition industrial_layer :: "env \<Rightarrow> layer list" where
  "industrial_layer E =
     (case industrial E of
        Absent \<Rightarrow> []
      | Present (Inl e) \<Rightarrow> []
      | Present (Inr g) \<Rightarrow> [GeoJson NAME_INDUSTRIAL g])"

text \<open>
  Lines 178 to 180 and 189 to 192, the loop over the rows of a point list: a row with both
  coordinates present gets a circle marker.  An exception of a row ends the loop (the bare
  \<^verbatim>\<open>except\<close> around it passes); the markers added before it stay in the group.
\<close>

fun circle_markers :: "pylib \<Rightarrow> dataframe \<Rightarrow> pystr \<Rightarrow> pystr \<Rightarrow> pystr \<Rightarrow> cell list list \<Rightarrow> marker list" where
  "circle_markers L df lat_col lon_col name_col [] = []"
| "circle_markers L df lat_col lon_col name_col (r # rs) =
     (if notnull (row_get df r lat_col) \<and> notnull (row_get df r lon_col)
      then (case folium_CircleMarker L (row_get df r lat_col) (row_get df r lon_col)
                   (row_get df r name_col) of
              Inl e \<Rightarrow> []
            | Inr mk \<Rightarrow> mk # circle_markers L df lat_col lon_col name_col rs)
      else circle_markers L df lat_col lon_col name_col rs)"

definition point_layer :: "pylib \<Rightarrow> pystr \<Rightarrow> dataframe source \<Rightarrow> pystr \<Rightarrow> pystr \<Rightarrow> pystr \<Rightarrow> layer" where
  "point_layer L name src lat_col lon_col name_col =
     FeatureGroup name
       (case src of
          Absent \<Rightarrow> []
        | Present (Inl e) \<Rightarrow> []
        | Present (Inr df) \<Rightarrow> circle_markers L df lat_col lon_col name_col (rows df))"

text \<open>
  Lines 203 to 220, the loop over the spreadsheets: the events, and the markers of the target
  group with the value of \<^verbatim>\<open>count\<close>, or the exception that left the loop.  The call of
  \<^verbatim>\<open>folium.Marker\<close> stands in no \<^verbatim>\<open>try\<close>.
\<close>

fun scan :: "pylib \<Rightarrow> env \<Rightarrow> xlsx_file list \<Rightarrow> event list \<times> (py_error + marker list \<times> nat)" where
  "scan L E [] = ([], Inr ([], 0))"
| "scan L E (p_file # ps) =
     (if fname p_file \<in> set EXCLUDE_FILES then scan L E ps
      else
        (case read_park_xlsx L E p_file of
           (ev, None) \<Rightarrow> (case scan L E ps of (ev', r) \<Rightarrow> (ev @ ev', r))
         | (ev, Some data) \<Rightarrow>
             (case folium_Marker L (lat data) (lon data) (create_popup_html L data)
                     (park_name data) of
                Inl e \<Rightarrow> (ev @ [Print (msg_loaded (park_name data))], Inl e)
              | Inr mk \<Rightarrow>
                  (case scan L E ps of
                     (ev', Inl e) \<Rightarrow> (ev @ [Print (msg_loaded (park_name data))] @ ev', Inl e)
                   | (ev', Inr (ms, count')) \<Rightarrow>
                       (ev @ [Print (msg_loaded (park_name data))] @ ev',
                        Inr (mk # ms, Suc count'))))))"

text \<open>
  Lines 150 to 260.  The result is the events of the run and either the document that
  \<^verbatim>\<open>m.save\<close> wrote (the function returns, the process exits with status 0) or the exception
  that left \<^verbatim>\<open>main\<close> (the process ends with a traceback and a non-zero status).
  \<^verbatim>\<open>m.save(OUTPUT_HTML)\<close> renders the document and writes the file; the exception that it
  ends with, from either step, is \<open>write_err E OUTPUT_HTML\<close>.  The calls of \<^verbatim>\<open>print\<close> are
  taken to return: the standard output is one that takes every line.
\<close>

definition main :: "pylib \<Rightarrow> env \<Rightarrow> event list \<times> (py_error + map_doc)" where
  "main L E =
     (let background =
            snd (county_layer E) @ industrial_layer E @
            [point_layer L NAME_SCHOOL (school E) COL_N COL_E COL_SCHOOL_NAME,
             point_layer L NAME_CENTER (center E) COL_CENTER_LAT COL_CENTER_LON COL_CENTER_NAME];
          evs0 = [Print MSG_START] @ fst (county_layer E) @
                 [Print (msg_found (length (all_excels E)))]
      in case scan L E (all_excels E) of
           (ev, Inl e) \<Rightarrow> (evs0 @ ev, Inl e)
         | (ev, Inr (ms, count')) \<Rightarrow>
             (let doc = \<lparr>children = background @ [FeatureGroup NAME_TARGET ms],
                         html_children = [feedback_js], layer_control = True\<rparr>;
                  evs1 = evs0 @ ev @ [Print (msg_done count')]
              in case write_err E OUTPUT_HTML of
                   Some e \<Rightarrow> (evs1, Inl e)
                 | None \<Rightarrow> (evs1 @ [SaveMap OUTPUT_HTML doc, Print msg_saved], Inr doc)))"

section \<open>Notions of the specification\<close>

text \<open>
  A target file is one that opens, has the basic-info sheet, and whose sheet reads into a
  key/value dictionary; \<open>park_dict\<close> is that dictionary.
\<close>

definition park_dict :: "xlsx_file \<Rightarrow> (cell \<rightharpoonup> cell) option" where
  "park_dict path =
     (case opened path of
        Inl e \<Rightarrow> None
      | Inr xl \<Rightarrow>
          if BASIC_INFO_SHEET \<notin> set (sheet_names xl) then None
          else (case read_excel xl BASIC_INFO_SHEET of
                  Inl e \<Rightarrow> None
                | Inr df \<Rightarrow> (case to_dict df of Inl e \<Rightarrow> None | Inr m \<Rightarrow> Some m)))"

text \<open>The name under which a target file's park is reported.\<close>

definition park_name_of :: "pylib \<Rightarrow> xlsx_file \<Rightarrow> (cell \<rightharpoonup> cell) \<Rightarrow> pystr" where
  "park_name_of L path m = get_str L m KEY_NAME (path_stem (fname path))"

text \<open>
  The records that the extractor returns for the files of a directory listing, in order: the
  accepted records.  The files named in \<open>EXCLUDE_FILES\<close> are never given to it.
\<close>

fun accepted :: "pylib \<Rightarrow> env \<Rightarrow> xlsx_file list \<Rightarrow> park list" where
  "accepted L E [] = []"
| "accepted L E (f # fs) =
     (if fname f \<in> set EXCLUDE_FILES then accepted L E fs
      else (case snd (read_park_xlsx L E f) of
              None \<Rightarrow> accepted L E fs
            | Some p \<Rightarrow> p # accepted L E fs))"

text \<open>The marker of a record (lines 213 to 219).\<close>

definition marker_of :: "pylib \<Rightarrow> park \<Rightarrow> marker" where
  "marker_of L p = Marker (lat p, lon p) (create_popup_html L p) (park_name p)"

text \<open>The markers of the document's target feature group.\<close>

fun group_markers :: "pystr \<Rightarrow> layer \<Rightarrow> marker list" where
  "group_markers name (FeatureGroup n ms) = (if n = name then ms else [])"
| "group_markers name (GeoJson n g) = []"

definition target_markers :: "map_doc \<Rightarrow> marker list" where
  "target_markers doc = concat (map (group_markers NAME_TARGET) (children doc))"

text \<open>The detail pages that a run wrote: the \<^verbatim>\<open>write_text\<close> events.\<close>

fun page_writes :: "event list \<Rightarrow> (pystr \<times> pystr) list" where
  "page_writes [] = []"
| "page_writes (WriteText p c # es) = (p, c) # page_writes es"
| "page_writes (e # es) = page_writes es"



text \<open>
  Python's \<^verbatim>\<open><=\<close> on the values of one kind that a column can hold: numbers by value,
  strings by code point, timestamps by time.  It is false between kinds and on missing values.
\<close>

fun float_le :: "pyfloat \<Rightarrow> pyfloat \<Rightarrow> bool" where
  "float_le NaN y = False"
| "float_le x NaN = False"
| "float_le NegInf y = True"
| "float_le x PosInf = True"
| "float_le (Finite x) (Finite y) = (x \<le> y)"
| "float_le x y = False"

fun num_of :: "cell \<Rightarrow> pyfloat option" where
  "num_of (CBool b) = Some (Finite (if b then 1 else 0))"
| "num_of (CInt i) = Some (Finite (real_of_int i))"
| "num_of (CFloat f) = Some f"
| "num_of _ = None"

fun cell_le :: "cell \<Rightarrow> cell \<Rightarrow> bool" where
  "cell_le (CStr s) (CStr t) = (s \<le> t)"
| "cell_le (CTime s) (CTime t) = (s \<le> t)"
| "cell_le a b =
     (case (num_of a, num_of b) of (Some x, Some y) \<Rightarrow> float_le x y | _ \<Rightarrow> False)"

text \<open>
  The rows of a table are in timestamp order by the column at index \<open>i\<close>: the rows with a
  value come first, each value at most the next, and the rows without a value follow.
\<close>

definition ordered_by :: "nat \<Rightarrow> cell list list \<Rightarrow> bool" where
  "ordered_by i rs =
     (let present = takeWhile (\<lambda>r. notnull (cell_at r i)) rs;
          missing = dropWhile (\<lambda>r. notnull (cell_at r i)) rs
      in sorted_wrt cell_le (map (\<lambda>r. cell_at r i) present) \<and>
         list_all (\<lambda>r. isnull (cell_at r i)) missing)"

section \<open>Example inputs\<close>

text \<open>
  One instance of the library parameters, for the closed examples.  Its alphanumeric test is
  the Unicode one on ASCII and on U+4E00 to U+9FFF; its float parser is the interpreter's on
  unsigned decimal literals (digits, then possibly a dot and digits) and rejects everything
  else; the examples give it such literals and the text \<^verbatim>\<open>abc\<close> only.  Its printers are given
  on the values that the examples print.  Its sort takes up the rows in the frame's order, and
  its message is the one for the column of the example that cannot be sorted.
\<close>

definition ex_isalnum :: "nat \<Rightarrow> bool" where
  "ex_isalnum c \<longleftrightarrow>
     (48 \<le> c \<and> c \<le> 57) \<or> (65 \<le> c \<and> c \<le> 90) \<or> (97 \<le> c \<and> c \<le> 122) \<or>
     (19968 \<le> c \<and> c \<le> 40959)"

definition is_digit :: "nat \<Rightarrow> bool" where
  "is_digit c \<longleftrightarrow> 48 \<le> c \<and> c \<le> 57"

definition digits_val :: "pystr \<Rightarrow> nat" where
  "digits_val s = foldl (\<lambda>n c. 10 * n + (c - 48)) 0 s"

definition dec_float :: "pystr \<Rightarrow> pyfloat option" where
  "dec_float s =
     (let ip = takeWhile is_digit s; r = dropWhile is_digit s
      in if ip = [] then None
         else (case r of
                 [] \<Rightarrow> Some (Finite (real (digits_val ip)))
               | c # fp \<Rightarrow>
                   if c = 46 \<and> fp \<noteq> [] \<and> list_all is_digit fp
                   then Some (Finite (real (digits_val ip) + real (digits_val fp) / 10 ^ length fp))
                   else None))"

definition ex_str_of_float :: "pyfloat \<Rightarrow> pystr" where
  "ex_str_of_float f =
     (if f = NaN then ascii ''nan'' else if f = PosInf then ascii ''inf''
      else if f = NegInf then ascii ''-inf''
      else if f = Finite 23.5 then ascii ''23.5''
      else if f = Finite 120.3 then ascii ''120.3'' else [])"

definition ex_html_cell :: "cell \<Rightarrow> pystr" where
  "ex_html_cell c = (case c of CInt i \<Rightarrow> str_of_int i | CStr s \<Rightarrow> s | _ \<Rightarrow> ascii ''NaN'')"

text \<open>The message of Python's TypeError for a number compared with text.\<close>

definition ex_sort_msg :: pystr where
  \<open>ex_sort_msg =
     [39] @ ascii ''<'' @ [39] @ ascii '' not supported between instances of '' @ [39] @
     ascii ''str'' @ [39] @ ascii '' and '' @ [39] @ ascii ''int'' @ [39]\<close>

definition ex_lib :: pylib where
  "ex_lib = \<lparr>uni_isalnum = ex_isalnum, float_of_str = dec_float,
             str_of_float = ex_str_of_float, str_of_time = str_of_int,
             html_cell = ex_html_cell, sort_error_msg = (\<lambda>cs. ex_sort_msg),
             tie_order = (\<lambda>rs. rs)\<rparr>"

text \<open>A park name, "demonstration park": \<^verbatim>\<open>"\u793a\u7bc4\u5712\u5340"\<close>\<close>

definition DEMO_NAME :: pystr where
  \<open>DEMO_NAME =
     [31034, 31684, 22290, 21312]\<close>

definition basic_df :: "cell \<Rightarrow> cell \<Rightarrow> dataframe" where
  "basic_df lon_cell lat_cell =
     \<lparr>columns = [CStr (ascii ''key''), CStr (ascii ''value'')],
      rows = [[CStr KEY_NAME, CStr DEMO_NAME], [CStr KEY_LON, lon_cell], [CStr KEY_LAT, lat_cell]]\<rparr>"

text \<open>A target file: name, longitude 120.3 and latitude 23.5, no measurement sheet.\<close>

definition valid_file :: xlsx_file where
  "valid_file =
     \<lparr>fname = ascii ''demo.xlsx'',
      opened = Inr [(BASIC_INFO_SHEET,
                     Inr (basic_df (CFloat (Finite 120.3)) (CFloat (Finite 23.5))))]\<rparr>"

text \<open>An unrelated spreadsheet, and a file that does not open.\<close>

definition other_file :: xlsx_file where
  "other_file =
     \<lparr>fname = ascii ''notes.xlsx'',
      opened = Inr [(ascii ''Sheet1'', Inr \<lparr>columns = [CStr (ascii ''a'')], rows = [[CInt 1]]\<rparr>)]\<rparr>"

definition broken_file :: xlsx_file where
  "broken_file =
     \<lparr>fname = ascii ''broken.xlsx'',
      opened = Inl (OtherException (ascii ''File is not a zip file''))\<rparr>"

text \<open>Target files whose latitude is the text \<^verbatim>\<open>abc\<close>, and whose latitude cell is empty.\<close>

definition badlat_file :: xlsx_file where
  "badlat_file =
     \<lparr>fname = ascii ''badlat.xlsx'',
      opened = Inr [(BASIC_INFO_SHEET,
                     Inr (basic_df (CFloat (Finite 120.3)) (CStr (ascii ''abc''))))]\<rparr>"

definition blank_lat_file :: xlsx_file where
  "blank_lat_file =
     \<lparr>fname = ascii ''blank.xlsx'',
      opened = Inr [(BASIC_INFO_SHEET, Inr (basic_df (CFloat (Finite 120.3)) (CFloat NaN)))]\<rparr>"

text \<open>A file whose basic-info sheet has one column.\<close>

definition narrow_file :: xlsx_file where
  "narrow_file =
     \<lparr>fname = ascii ''narrow.xlsx'',
      opened = Inr [(BASIC_INFO_SHEET,
                     Inr \<lparr>columns = [CStr (ascii ''key'')], rows = [[CStr KEY_NAME]]\<rparr>)]\<rparr>"

text \<open>
  Target files with a measurement sheet: one whose StartTime values are 3, 1, 2, and one whose
  StartTime column mixes a number with text, which \<^verbatim>\<open>sort_values\<close> cannot compare.
\<close>

definition meas_df :: dataframe where
  "meas_df =
     \<lparr>columns = [CStr START_TIME, CStr (ascii ''PM25'')],
      rows = [[CInt 3, CInt 30], [CInt 1, CInt 10], [CInt 2, CInt 20]]\<rparr>"

definition meas_file :: xlsx_file where
  "meas_file =
     \<lparr>fname = ascii ''meas.xlsx'',
      opened = Inr [(BASIC_INFO_SHEET,
                     Inr (basic_df (CFloat (Finite 120.3)) (CFloat (Finite 23.5)))),
                    (MEAS_SHEET, Inr meas_df)]\<rparr>"


text \<open>A directory with the given spreadsheets, no background file, and a disk that takes every write.\<close>

definition ex_env :: "xlsx_file list \<Rightarrow> env" where
  "ex_env files =
     \<lparr>county = Absent, industrial = Absent, school = Absent, center = Absent,
      all_excels = files, mkdir_err = (\<lambda>p. None), write_err = (\<lambda>p. None)\<rparr>"


text \<open>The record of the example target file, and a directory with that file and an unrelated one.\<close>

definition demo_park :: park where
  "demo_park =
     \<lparr>park_name = DEMO_NAME, lon = Finite 120.3, lat = Finite 23.5,
      monitoring_period = UNFILLED, data_type = UNFILLED, note_text = UNFILLED,
      raw_page_href = []\<rparr>"

definition demo_env :: env where
  "demo_env = ex_env [valid_file, other_file]"

section \<open>Slugs\<close>















section \<open>The extractor\<close>

lemma read_park_xlsx_dict:
  "read_park_xlsx L E path =
     (case park_dict path of
        None \<Rightarrow> ([], None)
      | Some m \<Rightarrow>
          (case py_float L (dict_get m KEY_LON CNone) of
             Inl e \<Rightarrow> ([Print (coord_warning (park_name_of L path m) (fname path))], None)
           | Inr lon_v \<Rightarrow>
               (case py_float L (dict_get m KEY_LAT CNone) of
                  Inl e \<Rightarrow> ([Print (coord_warning (park_name_of L path m) (fname path))], None)
                | Inr lat_v \<Rightarrow>
                    (if MEAS_SHEET \<in> set (sheet_names (projr (opened path)))
                     then (case detail_page L E (projr (opened path)) (park_name_of L path m) of
                             (ev, Inl e) \<Rightarrow> ev @ [Print (meas_warning (park_name_of L path m) e)]
                           | (ev, Inr h) \<Rightarrow> ev)
                     else [],
                     Some \<lparr>park_name = park_name_of L path m, lon = lon_v, lat = lat_v,
                            monitoring_period = get_str L m KEY_PERIOD UNFILLED,
                            data_type = get_str L m KEY_TYPE UNFILLED,
                            note_text = get_str L m KEY_NOTE UNFILLED,
                            raw_page_href =
                              (if MEAS_SHEET \<in> set (sheet_names (projr (opened path)))
                               then (case detail_page L E (projr (opened path)) (park_name_of L path m) of
                                       (ev, Inl e) \<Rightarrow> []
                                     | (ev, Inr h) \<Rightarrow> h)
                               else [])\<rparr>))))"
  by (auto simp: read_park_xlsx_def park_dict_def park_name_of_def Let_def
      split: sum.splits option.splits prod.splits)

lemma scan_skip:
  "read_park_xlsx L E path = ([], None) \<Longrightarrow> scan L E (path # ps) = scan L E ps"
  by (cases "scan L E ps") simp

lemmas ex_strings = BASIC_INFO_SHEET_def MEAS_SHEET_def KEY_NAME_def KEY_LON_def KEY_LAT_def
  KEY_PERIOD_def KEY_TYPE_def KEY_NOTE_def ascii_def

lemma park_dict_examples:
  "park_dict broken_file = None"
  "park_dict other_file = None"
  "park_dict narrow_file = None"
  by (simp_all add: park_dict_def broken_file_def other_file_def narrow_file_def sheet_names_def
      read_excel_def to_dict_def ex_strings)

lemma park_dict_basic:
  "opened f = Inr ((BASIC_INFO_SHEET, Inr (basic_df lo la)) # sheets) \<Longrightarrow>
   park_dict f = Some [CStr KEY_NAME \<mapsto> CStr DEMO_NAME, CStr KEY_LON \<mapsto> lo, CStr KEY_LAT \<mapsto> la]"
  by (simp add: park_dict_def sheet_names_def read_excel_def to_dict_def basic_df_def cell_at_def)

text \<open>
  Claim C3.  A spreadsheet that does not open, or that opens and has no sheet named
  \<open>BASIC_INFO_SHEET\<close>, is not a target: \<open>read_park_xlsx\<close> returns \<open>None\<close> for it and
  causes no event, so nothing is printed, and the loop of \<open>main\<close> goes on with the next
  file as if the file were not there.  The result is a value: no exception leaves the call.
\<close>

theorem non_target_skipped_silently:
  assumes "(\<exists>e. opened path = Inl e) \<or>
           (\<exists>xl. opened path = Inr xl \<and> BASIC_INFO_SHEET \<notin> set (sheet_names xl))"
  shows "read_park_xlsx L E path = ([], None) \<and> scan L E (path # ps) = scan L E ps"
proof -
  from assms have "park_dict path = None"
    by (auto simp: park_dict_def)
  then have "read_park_xlsx L E path = ([], None)"
    by (simp add: read_park_xlsx_dict)
  then show ?thesis
    by (simp add: scan_skip)
qed

theorem non_target_skipped_silently_witness:
  "read_park_xlsx ex_lib (ex_env [broken_file, other_file]) broken_file = ([], None) \<and>
   read_park_xlsx ex_lib (ex_env [broken_file, other_file]) other_file = ([], None) \<and>
   scan ex_lib (ex_env [broken_file, other_file]) [broken_file, other_file] = ([], Inr ([], 0))"
proof -
  let ?E = "ex_env [broken_file, other_file]"
  have b: "\<exists>e. opened broken_file = Inl e"
    by (simp add: broken_file_def)
  have o: "\<exists>xl. opened other_file = Inr xl \<and> BASIC_INFO_SHEET \<notin> set (sheet_names xl)"
    by (simp add: other_file_def sheet_names_def ex_strings)
  from b have 1: "read_park_xlsx ex_lib ?E broken_file = ([], None) \<and>
      scan ex_lib ?E (broken_file # [other_file]) = scan ex_lib ?E [other_file]"
    by (intro non_target_skipped_silently) blast
  from o have 2: "read_park_xlsx ex_lib ?E other_file = ([], None) \<and>
      scan ex_lib ?E (other_file # []) = scan ex_lib ?E []"
    by (intro non_target_skipped_silently) blast
  from 1 2 show ?thesis by simp
qed

text \<open>
  Claim C10.  A spreadsheet that has the basic-info sheet, read into a frame with fewer than
  two columns, is passed over like a file that is no target: the IndexError of
  \<^verbatim>\<open>df.columns[1]\<close> is caught by the handler of lines 60 and 61, \<open>read_park_xlsx\<close> returns
  \<open>None\<close> and nothing is printed.
\<close>

theorem narrow_basic_sheet_skipped_silently:
  assumes "opened path = Inr xl" and "BASIC_INFO_SHEET \<in> set (sheet_names xl)"
    and "read_excel xl BASIC_INFO_SHEET = Inr df" and "length (columns df) < 2"
  shows "read_park_xlsx L E path = ([], None) \<and> scan L E (path # ps) = scan L E ps"
proof -
  from assms have "park_dict path = None"
    by (simp add: park_dict_def to_dict_def)
  then have "read_park_xlsx L E path = ([], None)"
    by (simp add: read_park_xlsx_dict)
  then show ?thesis
    by (simp add: scan_skip)
qed

theorem narrow_basic_sheet_skipped_silently_witness:
  "BASIC_INFO_SHEET \<in> set (sheet_names (projr (opened narrow_file))) \<and>
   read_park_xlsx ex_lib (ex_env [narrow_file]) narrow_file = ([], None) \<and>
   scan ex_lib (ex_env [narrow_file]) [narrow_file] = ([], Inr ([], 0))"
proof -
  let ?xl = "[(BASIC_INFO_SHEET, Inr \<lparr>columns = [CStr (ascii ''key'')], rows = [[CStr KEY_NAME]]\<rparr>)]"
  have 1: "opened narrow_file = Inr ?xl"
    by (simp add: narrow_file_def)
  have 2: "BASIC_INFO_SHEET \<in> set (sheet_names ?xl)"
    by (simp add: sheet_names_def)
  have 3: "read_excel ?xl BASIC_INFO_SHEET = Inr \<lparr>columns = [CStr (ascii ''key'')], rows = [[CStr KEY_NAME]]\<rparr>"
    by (simp add: read_excel_def)
  have 4: "length (columns \<lparr>columns = [CStr (ascii ''key'')], rows = [[CStr KEY_NAME]]\<rparr>) < 2"
    by simp
  from narrow_basic_sheet_skipped_silently [OF 1 2 3 4, of ex_lib "ex_env [narrow_file]" "[]"] 1 2
  show ?thesis by simp
qed

text \<open>
  A target file is rejected with the warning of line 72, which names the park and the file,
  when \<^verbatim>\<open>float\<close> raises on its longitude or on its latitude.  That is so when the key is
  not in the sheet at all.
\<close>

lemma unparsable_coordinates_rejected:
  assumes "park_dict path = Some m"
    and "(\<exists>e. py_float L (dict_get m KEY_LON CNone) = Inl e) \<or>
         (\<exists>e. py_float L (dict_get m KEY_LAT CNone) = Inl e)"
  shows "read_park_xlsx L E path =
           ([Print (coord_warning (park_name_of L path m) (fname path))], None)"
  using assms by (auto simp: read_park_xlsx_dict split: sum.splits)

lemma missing_key_not_float:
  "m (CStr key) = None \<Longrightarrow> \<exists>e. py_float L (dict_get m key CNone) = Inl e"
  by (simp add: dict_get_def)

text \<open>The example file whose latitude is the text \<^verbatim>\<open>abc\<close> is rejected with the warning.\<close>

lemma read_badlat_file:
  "read_park_xlsx ex_lib E badlat_file =
     ([Print (coord_warning DEMO_NAME (ascii ''badlat.xlsx''))], None)"
proof -
  have "park_dict badlat_file =
      Some [CStr KEY_NAME \<mapsto> CStr DEMO_NAME, CStr KEY_LON \<mapsto> CFloat (Finite 120.3),
            CStr KEY_LAT \<mapsto> CStr (ascii ''abc'')]"
    by (rule park_dict_basic) (simp add: badlat_file_def)
  moreover have "float_of_str ex_lib (ascii ''abc'') = None"
    by (simp add: ex_lib_def dec_float_def is_digit_def ascii_def)
  ultimately show ?thesis
    by (simp add: read_park_xlsx_dict dict_get_def get_str_def park_name_of_def
        badlat_file_def ex_strings)
qed

lemma read_blank_lat_file:
  "read_park_xlsx ex_lib E blank_lat_file =
     ([], Some \<lparr>park_name = DEMO_NAME, lon = Finite 120.3, lat = NaN,
                 monitoring_period = UNFILLED, data_type = UNFILLED, note_text = UNFILLED,
                 raw_page_href = []\<rparr>)"
proof -
  have "park_dict blank_lat_file =
      Some [CStr KEY_NAME \<mapsto> CStr DEMO_NAME, CStr KEY_LON \<mapsto> CFloat (Finite 120.3), CStr KEY_LAT \<mapsto> CFloat NaN]"
    by (rule park_dict_basic) (simp add: blank_lat_file_def)
  then show ?thesis
    by (simp add: read_park_xlsx_dict dict_get_def get_str_def park_name_of_def
        blank_lat_file_def sheet_names_def ex_strings)
qed

text \<open>
  Claim C2.  A target file whose latitude cell is empty is not rejected.  pandas reads the
  empty cell as a NaN, \<^verbatim>\<open>float\<close> returns a NaN as it is, and \<open>read_park_xlsx\<close> returns a
  record whose latitude is NaN without printing the warning.
\<close>

theorem blank_latitude_accepted:
  "read_park_xlsx ex_lib (ex_env [blank_lat_file]) blank_lat_file =
     ([], Some \<lparr>park_name = DEMO_NAME, lon = Finite 120.3, lat = NaN,
                 monitoring_period = UNFILLED, data_type = UNFILLED, note_text = UNFILLED,
                 raw_page_href = []\<rparr>)"
  by (rule read_blank_lat_file)

lemma park_dict_valid_file:
  "park_dict valid_file =
     Some [CStr KEY_NAME \<mapsto> CStr DEMO_NAME, CStr KEY_LON \<mapsto> CFloat (Finite 120.3),
           CStr KEY_LAT \<mapsto> CFloat (Finite 23.5)]"
  by (rule park_dict_basic) (simp add: valid_file_def)

lemma read_valid_file:
  "read_park_xlsx ex_lib E valid_file =
     ([], Some \<lparr>park_name = DEMO_NAME, lon = Finite 120.3, lat = Finite 23.5,
                 monitoring_period = UNFILLED, data_type = UNFILLED, note_text = UNFILLED,
                 raw_page_href = []\<rparr>)"
  using park_dict_valid_file
  by (simp add: read_park_xlsx_dict dict_get_def get_str_def
      park_name_of_def valid_file_def sheet_names_def ex_strings)

lemma UNFILLED_nonempty: "UNFILLED \<noteq> []"
  by (simp add: UNFILLED_def)

text \<open>
  Claim C5, as stated, fails: the example target file has no monitoring-period key, and the
  record's monitoring period is the placeholder \<open>UNFILLED\<close>, not the empty string.
\<close>

theorem missing_period_not_empty:
  "park_dict valid_file \<noteq> None \<and>
   the (park_dict valid_file) (CStr KEY_PERIOD) = None \<and>
   map_option monitoring_period (snd (read_park_xlsx ex_lib (ex_env [valid_file]) valid_file)) =
     Some UNFILLED \<and>
   UNFILLED \<noteq> []"
  by (simp add: read_valid_file park_dict_valid_file UNFILLED_nonempty ex_strings)

text \<open>
  Claim C5, amended.  For a target file whose basic-info sheet lacks the monitoring-period
  key, the data-type key or the note key, the extractor sets that field of the record to the
  placeholder \<open>UNFILLED\<close>, the default that lines 112 to 114 pass to \<^verbatim>\<open>get_str\<close>.
\<close>

theorem missing_metadata_gets_placeholder:
  assumes "park_dict path = Some m" and "read_park_xlsx L E path = (evs, Some p)"
  shows "(m (CStr KEY_PERIOD) = None \<longrightarrow> monitoring_period p = UNFILLED) \<and>
         (m (CStr KEY_TYPE) = None \<longrightarrow> data_type p = UNFILLED) \<and>
         (m (CStr KEY_NOTE) = None \<longrightarrow> note_text p = UNFILLED)"
proof -
  have g: "get_str L m key UNFILLED = UNFILLED" if "m (CStr key) = None" for key
    using that by (simp add: get_str_def dict_get_def)
  from assms show ?thesis
    by (auto simp: read_park_xlsx_dict g split: sum.splits)
qed

theorem missing_metadata_gets_placeholder_witness:
  "park_dict valid_file \<noteq> None \<and>
   the (park_dict valid_file) (CStr KEY_PERIOD) = None \<and>
   the (park_dict valid_file) (CStr KEY_TYPE) = None \<and>
   the (park_dict valid_file) (CStr KEY_NOTE) = None \<and>
   snd (read_park_xlsx ex_lib (ex_env [valid_file]) valid_file) \<noteq> None \<and>
   monitoring_period (the (snd (read_park_xlsx ex_lib (ex_env [valid_file]) valid_file))) = UNFILLED \<and>
   data_type (the (snd (read_park_xlsx ex_lib (ex_env [valid_file]) valid_file))) = UNFILLED \<and>
   note_text (the (snd (read_park_xlsx ex_lib (ex_env [valid_file]) valid_file))) = UNFILLED"
proof -
  let ?m = "[CStr KEY_NAME \<mapsto> CStr DEMO_NAME, CStr KEY_LON \<mapsto> CFloat (Finite 120.3),
           CStr KEY_LAT \<mapsto> CFloat (Finite 23.5)]"
  let ?p = "\<lparr>park_name = DEMO_NAME, lon = Finite 120.3, lat = Finite 23.5,
                 monitoring_period = UNFILLED, data_type = UNFILLED, note_text = UNFILLED,
                 raw_page_href = []\<rparr>"
  have k: "?m (CStr KEY_PERIOD) = None" "?m (CStr KEY_TYPE) = None" "?m (CStr KEY_NOTE) = None"
    by (simp_all add: ex_strings)
  have r: "read_park_xlsx ex_lib (ex_env [valid_file]) valid_file = ([], Some ?p)"
    by (rule read_valid_file)
  from missing_metadata_gets_placeholder [OF park_dict_valid_file r] k
  have "monitoring_period ?p = UNFILLED \<and> data_type ?p = UNFILLED \<and> note_text ?p = UNFILLED"
    by blast
  with k show ?thesis
    by (simp add: r park_dict_valid_file)
qed

section \<open>The loop over the spreadsheets and the document\<close>

lemma validate_coord_float:
  "validate_coord L (CFloat a) =
     (if a = NaN then Inl (ValueError (ascii ''Location values cannot contain NaNs.'')) else Inr a)"
  by (cases a) (simp_all add: validate_coord_def)

lemma folium_Marker_eq:
  "folium_Marker L a b html name =
     (if a = NaN \<or> b = NaN then Inl (ValueError (ascii ''Location values cannot contain NaNs.''))
      else Inr (Marker (a, b) html name))"
  by (simp add: folium_Marker_def validate_location_def validate_coord_float)

lemma scan_markers:
  "scan L E fs = (evs, Inr (ms, n)) \<Longrightarrow>
   ms = map (marker_of L) (accepted L E fs) \<and> n = length ms"
proof (induction fs arbitrary: evs ms n)
  case Nil
  then show ?case by simp
next
  case (Cons f fs)
  show ?case
  proof (cases "fname f \<in> set EXCLUDE_FILES")
    case True
    with Cons show ?thesis by simp
  next
    case False
    obtain ev r where rd: "read_park_xlsx L E f = (ev, r)"
      by (cases "read_park_xlsx L E f")
    obtain ev' r' where sc: "scan L E fs = (ev', r')"
      by (cases "scan L E fs")
    show ?thesis
    proof (cases r)
      case None
      with Cons.prems False rd sc have "r' = Inr (ms, n)"
        by simp
      with Cons.IH sc have "ms = map (marker_of L) (accepted L E fs) \<and> n = length ms"
        by simp
      with False rd None show ?thesis by simp
    next
      case (Some p)
      with Cons.prems False rd sc obtain ms' n' where
        ok: "lat p \<noteq> NaN" "lon p \<noteq> NaN" and r': "r' = Inr (ms', n')"
        and ms: "ms = marker_of L p # ms'" and n: "n = Suc n'"
        by (auto simp: folium_Marker_eq marker_of_def split: if_splits sum.splits)
      from Cons.IH sc r' have "ms' = map (marker_of L) (accepted L E fs) \<and> n' = length ms'"
        by simp
      with False rd Some ms n show ?thesis by simp
    qed
  qed
qed

lemma layer_names_distinct:
  "NAME_SCHOOL \<noteq> NAME_TARGET" "NAME_CENTER \<noteq> NAME_TARGET"
  by (simp_all add: NAME_SCHOOL_def NAME_CENTER_def NAME_TARGET_def)

lemma group_markers_background:
  "group_markers NAME_TARGET (point_layer L NAME_SCHOOL s a b c) = []"
  "group_markers NAME_TARGET (point_layer L NAME_CENTER s a b c) = []"
  "concat (map (group_markers NAME_TARGET) (snd (county_layer E))) = []"
  "concat (map (group_markers NAME_TARGET) (industrial_layer E)) = []"
  by (auto simp: county_layer_def industrial_layer_def point_layer_def layer_names_distinct
      split: source.splits sum.splits)

lemma main_scan:
  "main L E = (evs, Inr doc) \<Longrightarrow>
   \<exists>ev n. scan L E (all_excels E) = (ev, Inr (target_markers doc, n)) \<and>
          write_err E OUTPUT_HTML = None"
  by (auto simp: main_def Let_def target_markers_def group_markers_background
      split: prod.splits sum.splits option.splits)

lemma main_markers:
  "main L E = (evs, Inr doc) \<Longrightarrow>
   target_markers doc = map (marker_of L) (accepted L E (all_excels E))"
  by (auto dest!: main_scan dest: scan_markers)

lemma read_other_file: "read_park_xlsx L E other_file = ([], None)"
  by (simp add: read_park_xlsx_dict park_dict_examples)

lemma not_excluded:
  "fname valid_file \<notin> set EXCLUDE_FILES" "fname other_file \<notin> set EXCLUDE_FILES"
  "fname blank_lat_file \<notin> set EXCLUDE_FILES"
  by (simp_all add: valid_file_def other_file_def blank_lat_file_def EXCLUDE_FILES_def
      SCHOOL_EXCEL_name_def CENTER_EXCEL_name_def REQUIREMENTS_TXT_def DS_STORE_def ascii_def)

lemma accepted_demo: "accepted ex_lib demo_env (all_excels demo_env) = [demo_park]"
  by (simp add: demo_env_def ex_env_def not_excluded read_valid_file read_other_file demo_park_def)

lemma main_demo:
  "main ex_lib demo_env =
     ([Print MSG_START, Print (msg_found 2), Print (msg_loaded DEMO_NAME), Print (msg_done 1),
       SaveMap OUTPUT_HTML
         \<lparr>children = [FeatureGroup NAME_SCHOOL [], FeatureGroup NAME_CENTER [],
                       FeatureGroup NAME_TARGET [marker_of ex_lib demo_park]],
          html_children = [feedback_js], layer_control = True\<rparr>,
       Print msg_saved],
      Inr \<lparr>children = [FeatureGroup NAME_SCHOOL [], FeatureGroup NAME_CENTER [],
                       FeatureGroup NAME_TARGET [marker_of ex_lib demo_park]],
           html_children = [feedback_js], layer_control = True\<rparr>)"
  by (simp add: main_def Let_def county_layer_def industrial_layer_def point_layer_def
      demo_env_def ex_env_def not_excluded read_valid_file read_other_file
      demo_park_def folium_Marker_eq marker_of_def eval_nat_numeral)

text \<open>
  When a run composes its document, the markers of the target feature group are the markers
  of the accepted records, one for each and in their order: a file for which the extractor
  returns \<open>None\<close> and a file of \<open>EXCLUDE_FILES\<close> contribute none.
\<close>

lemma composed_markers_match_accepted:
  assumes "main L E = (evs, Inr doc)"
  shows "target_markers doc = map (marker_of L) (accepted L E (all_excels E)) \<and>
         length (target_markers doc) = length (accepted L E (all_excels E))"
  using main_markers [OF assms] by simp

text \<open>
  The scenario of the specification: a directory with one valid target file (the park at
  longitude 120.3 and latitude 23.5, no measurement sheet) and one unrelated spreadsheet
  yields one marker at (23.5, 120.3) and no detail page.
\<close>

lemma scenario_one_valid_one_unrelated:
  "snd (main ex_lib demo_env) = Inr (projr (snd (main ex_lib demo_env))) \<and>
   accepted ex_lib demo_env (all_excels demo_env) = [demo_park] \<and>
   target_markers (projr (snd (main ex_lib demo_env))) =
     [Marker (Finite 23.5, Finite 120.3) (create_popup_html ex_lib demo_park) DEMO_NAME] \<and>
   length (target_markers (projr (snd (main ex_lib demo_env)))) = 1 \<and>
   page_writes (fst (main ex_lib demo_env)) = []"
  by (simp add: accepted_demo main_demo marker_of_def demo_park_def layer_names_distinct
      target_markers_def)

text \<open>
  Claim C1.  In a directory with the valid target file and the target file whose latitude
  cell is empty, the extractor accepts both files: there are two accepted records.  The
  second has the latitude NaN, \<^verbatim>\<open>folium.Marker\<close> raises ValueError for it, and the run ends
  there: the second accepted file contributes no marker, and no document is composed.
\<close>

theorem nan_record_gets_no_marker:
  "accepted ex_lib (ex_env [valid_file, blank_lat_file]) [valid_file, blank_lat_file] =
     [demo_park, demo_park\<lparr>lat := NaN\<rparr>] \<and>
   scan ex_lib (ex_env [valid_file, blank_lat_file]) [valid_file, blank_lat_file] =
     ([Print (msg_loaded DEMO_NAME), Print (msg_loaded DEMO_NAME)],
      Inl (ValueError (ascii ''Location values cannot contain NaNs.''))) \<and>
   main ex_lib (ex_env [valid_file, blank_lat_file]) =
     ([Print MSG_START, Print (msg_found 2), Print (msg_loaded DEMO_NAME),
       Print (msg_loaded DEMO_NAME)],
      Inl (ValueError (ascii ''Location values cannot contain NaNs.'')))"
  by (simp add: main_def Let_def county_layer_def ex_env_def not_excluded folium_Marker_eq
      read_valid_file read_blank_lat_file demo_park_def eval_nat_numeral)




text \<open>
  A record with a NaN coordinate ends the run: \<^verbatim>\<open>folium.Marker\<close> raises ValueError for
  it, outside every \<^verbatim>\<open>try\<close>, before the document is saved.
\<close>

lemma scan_blank:
  "scan ex_lib E [blank_lat_file] =
     ([Print (msg_loaded DEMO_NAME)],
      Inl (ValueError (ascii ''Location values cannot contain NaNs.'')))"
  by (simp add: not_excluded folium_Marker_eq read_blank_lat_file)

text \<open>
  Claim C9.  In a directory whose only spreadsheet is the target file with the empty latitude
  cell, on a disk that takes every write, \<open>main\<close> ends with the ValueError of the marker
  after three printed lines: nothing is saved, although the document could be written.
\<close>

theorem blank_latitude_aborts_run:
  "write_err (ex_env [blank_lat_file]) OUTPUT_HTML = None \<and>
   main ex_lib (ex_env [blank_lat_file]) =
     ([Print MSG_START, Print (msg_found 1), Print (msg_loaded DEMO_NAME)],
      Inl (ValueError (ascii ''Location values cannot contain NaNs.'')))"
  by (simp add: main_def Let_def county_layer_def ex_env_def not_excluded folium_Marker_eq
      read_blank_lat_file)


section \<open>The detail page\<close>

lemma to_html_contains: "\<exists>pre post. to_html L df = pre @ html_body L (rows df) @ post"
proof -
  define pre where \<open>pre =
     ascii ''<table class="dataframe table">'' @ nl @
     ascii ''  <thead>'' @ nl @
     html_tr L (ascii ''    <tr style="text-align: right;">'') (ascii ''th'') (columns df) @
     ascii ''  </thead>'' @ nl @
     ascii ''  <tbody>'' @ nl\<close>
  define post where \<open>post = ascii ''  </tbody>'' @ nl @ ascii ''</table>''\<close>
  have "to_html L df = pre @ html_body L (rows df) @ post"
    by (simp add: to_html_def pre_def post_def)
  then show ?thesis by blast
qed

lemma float_le_case:
  "float_le x y =
     (case x of
        NaN \<Rightarrow> False
      | NegInf \<Rightarrow> y \<noteq> NaN
      | PosInf \<Rightarrow> y = PosInf
      | Finite u \<Rightarrow> (case y of Finite v \<Rightarrow> u \<le> v | PosInf \<Rightarrow> True | _ \<Rightarrow> False))"
  by (cases x; cases y) simp_all

lemma sort_rank_float:
  "sort_rank (CFloat x) =
     (case x of Finite u \<Rightarrow> ((0, u), [], 0) | PosInf \<Rightarrow> ((1, 0), [], 0)
      | NegInf \<Rightarrow> ((- 1, 0), [], 0) | NaN \<Rightarrow> ((0, 0), [], 0))"
  by (cases x) simp_all

lemma isnull_float: "isnull (CFloat x) = (x = NaN)"
  by (cases x) simp_all

lemma rank_le_cell_le:
  assumes "notnull a" and "notnull b" and "cell_kind a = cell_kind b"
    and "sort_rank a \<le> sort_rank b"
  shows "cell_le a b"
  using assms
  by (cases a; cases b)
     (auto simp: notnull_def float_le_case sort_rank_float isnull_float
           split: if_splits pyfloat.splits)

lemma page_html_contains: "\<exists>pre post. page_html name t = pre @ t @ post"
proof -
  define pre where \<open>pre =
     ascii ''<!doctype html>'' @ nl @ ascii ''            <html lang="zh-Hant">'' @ nl @
     ascii ''            <head>'' @ nl @ ascii ''            <meta charset="utf-8">'' @ nl @
     ascii ''            <meta name="viewport" content="width=device-width, initial'' @
     ascii ''-scale=1">'' @ nl @ ascii ''            <title>'' @ name @ ascii '' - '' @
     [37327, 28204, 36039, 26009] @ ascii ''</title>'' @ nl @
     ascii ''            <link href="https://cdn.jsdelivr.net/npm/bootstrap@5.1.3/d'' @
     ascii ''ist/css/bootstrap.min.css" rel="stylesheet">'' @ nl @
     ascii ''            </head>'' @ nl @ ascii ''            <body class="p-3">'' @ nl @
     ascii ''            <h3>'' @ name @ [65372, 37327, 28204, 36039, 26009] @
     ascii ''</h3>'' @ nl @
     ascii ''            <div class="table-responsive" style="max-height: 90vh;">'' @ nl @
     ascii ''                ''\<close>
  define post where \<open>post =
     nl @ ascii ''            </div>'' @ nl @ ascii ''            </body></html>''\<close>
  have "page_html name t = pre @ t @ post"
    by (simp add: page_html_def pre_def post_def)
  then show ?thesis by blast
qed

lemma comparable_kinds:
  "comparable cs \<Longrightarrow> a \<in> set cs \<Longrightarrow> b \<in> set cs \<Longrightarrow> cell_kind a = cell_kind b"
  by (cases cs) (auto simp: comparable_def list_all_iff)

lemma mset_rearranged: "mset (rearranged L rs) = mset rs"
  by (simp add: rearranged_def)

lemma set_rearranged: "set (rearranged L rs) = set rs"
  using mset_rearranged [of L rs] by (rule mset_eq_setD)

lemma sorted_present:
  assumes "comparable (map (\<lambda>r. cell_at r i) (filter (\<lambda>r. notnull (cell_at r i)) rs))"
    and "set ps = set (filter (\<lambda>r. notnull (cell_at r i)) rs)"
  shows "sorted_wrt cell_le
           (map (\<lambda>r. cell_at r i) (sort_key (\<lambda>r. sort_rank (cell_at r i)) ps))"
proof -
  let ?present = "filter (\<lambda>r. notnull (cell_at r i)) rs"
  let ?sorted = "sort_key (\<lambda>r. sort_rank (cell_at r i)) ps"
  have "sorted (map (\<lambda>r. sort_rank (cell_at r i)) ?sorted)"
    by (rule sorted_sort_key)
  then have "sorted_wrt (\<lambda>a b. sort_rank a \<le> sort_rank b) (map (\<lambda>r. cell_at r i) ?sorted)"
    by (simp add: sorted_wrt_map)
  moreover have "cell_le a b"
    if "a \<in> set (map (\<lambda>r. cell_at r i) ?sorted)" "b \<in> set (map (\<lambda>r. cell_at r i) ?sorted)"
      "sort_rank a \<le> sort_rank b" for a b
  proof -
    from that assms(2) have m: "a \<in> set (map (\<lambda>r. cell_at r i) ?present)"
        "b \<in> set (map (\<lambda>r. cell_at r i) ?present)"
      by auto
    then have "notnull a" "notnull b" by auto
    moreover from assms(1) m have "cell_kind a = cell_kind b" by (rule comparable_kinds)
    ultimately show ?thesis using that(3) by (rule rank_le_cell_le)
  qed
  ultimately show ?thesis
    by (rule sorted_wrt_mono_rel [rotated])
qed

lemma ordered_by_sorted:
  assumes "comparable (map (\<lambda>r. cell_at r i) (filter (\<lambda>r. notnull (cell_at r i)) rs))"
    and "set ps = set (filter (\<lambda>r. notnull (cell_at r i)) rs)"
  shows "ordered_by i
           (sort_key (\<lambda>r. sort_rank (cell_at r i)) ps @ filter (\<lambda>r. isnull (cell_at r i)) rs)"
proof -
  let ?P = "\<lambda>r. notnull (cell_at r i)"
  let ?A = "sort_key (\<lambda>r. sort_rank (cell_at r i)) ps"
  let ?B = "filter (\<lambda>r. isnull (cell_at r i)) rs"
  have A: "\<And>r. r \<in> set ?A \<Longrightarrow> ?P r" using assms(2) by simp
  have B: "\<forall>r\<in>set ?B. \<not> ?P r" by (simp add: notnull_def)
  have tB: "takeWhile ?P ?B = []" using B by (cases ?B) auto
  have dB: "dropWhile ?P ?B = ?B" using B by (cases ?B) auto
  have t: "takeWhile ?P (?A @ ?B) = ?A"
    using takeWhile_append2 [of ?A ?P ?B, OF A] tB by simp
  have d: "dropWhile ?P (?A @ ?B) = ?B"
    using dropWhile_append2 [of ?A ?P ?B, OF A] dB by simp
  show ?thesis
    unfolding ordered_by_def Let_def t d
    using sorted_present [OF assms] by (simp add: list_all_iff)
qed

lemma mset_sorted_rows:
  assumes "mset ps = mset (filter (\<lambda>r. notnull (cell_at r i)) rs)"
  shows "mset (sort_key f ps @ filter (\<lambda>r. isnull (cell_at r i)) rs) = mset rs"
  using assms by (simp add: notnull_def)

lemma sort_values_ok:
  assumes "sort_values L df col = Inr df'"
  shows "\<exists>i. index_of (CStr col) (columns df) = Some i \<and> columns df' = columns df \<and>
           ordered_by i (rows df') \<and> mset (rows df') = mset (rows df)"
proof -
  from assms obtain i where i: "index_of (CStr col) (columns df) = Some i"
    and c: "comparable (map (\<lambda>r. cell_at r i) (filter (\<lambda>r. notnull (cell_at r i)) (rows df)))"
    and d: "df' = df\<lparr>rows := sort_key (\<lambda>r. sort_rank (cell_at r i))
                          (rearranged L (filter (\<lambda>r. notnull (cell_at r i)) (rows df))) @
                        filter (\<lambda>r. isnull (cell_at r i)) (rows df)\<rparr>"
    by (auto simp: sort_values_def Let_def split: option.splits if_splits)
  from d have r: "rows df' = sort_key (\<lambda>r. sort_rank (cell_at r i))
                          (rearranged L (filter (\<lambda>r. notnull (cell_at r i)) (rows df))) @
                        filter (\<lambda>r. isnull (cell_at r i)) (rows df)"
    and "columns df' = columns df"
    by simp_all
  moreover have "ordered_by i (rows df')"
    unfolding r using c set_rearranged by (rule ordered_by_sorted)
  moreover have "mset (rows df') = mset (rows df)"
    unfolding r using mset_rearranged by (rule mset_sorted_rows)
  ultimately show ?thesis using i by blast
qed

lemma detail_page_ok:
  assumes "read_excel xl MEAS_SHEET = Inr df" and "detail_page L E xl name = (evs, Inr href)"
  shows "\<exists>df'. (if CStr START_TIME \<in> set (columns df)
                then sort_values L df START_TIME = Inr df' else df' = df) \<and>
               evs = [Mkdir OUTPUT_DIR,
                      WriteText (path_join OUTPUT_DIR (meas_filename L name))
                        (page_html name (to_html L df'))] \<and>
               href = page_href (meas_filename L name)"
  using assms
  by (auto simp: detail_page_def Let_def split: sum.splits option.splits if_splits)

text \<open>
  Claim C7.  When the detail page of a measurement sheet is written, the page holds the
  table body \<open>html_body L rs\<close>, one \<^verbatim>\<open>tr\<close> element for each row of \<open>rs\<close> in their order,
  where \<open>rs\<close> holds the rows of the sheet.  With a column named StartTime the rows are in
  non-decreasing order of that column's values (the rows without a value come last); without
  such a column they are in the sheet's order.
\<close>

theorem detail_table_in_time_order:
  assumes "read_excel xl MEAS_SHEET = Inr df" and "detail_page L E xl name = (evs, Inr href)"
  shows "\<exists>rs pre post.
           page_writes evs =
             [(path_join OUTPUT_DIR (meas_filename L name), pre @ html_body L rs @ post)] \<and>
           mset rs = mset (rows df) \<and>
           (CStr START_TIME \<in> set (columns df) \<longrightarrow>
              (\<exists>i. index_of (CStr START_TIME) (columns df) = Some i \<and> ordered_by i rs)) \<and>
           (CStr START_TIME \<notin> set (columns df) \<longrightarrow> rs = rows df)"
proof -
  from detail_page_ok [OF assms] obtain df' where
    s: "if CStr START_TIME \<in> set (columns df)
        then sort_values L df START_TIME = Inr df' else df' = df"
    and e: "evs = [Mkdir OUTPUT_DIR,
                   WriteText (path_join OUTPUT_DIR (meas_filename L name))
                     (page_html name (to_html L df'))]"
    by blast
  obtain p1 q1 where 1: "page_html name (to_html L df') = p1 @ to_html L df' @ q1"
    using page_html_contains by blast
  obtain p2 q2 where 2: "to_html L df' = p2 @ html_body L (rows df') @ q2"
    using to_html_contains by blast
  have w: "page_writes evs =
      [(path_join OUTPUT_DIR (meas_filename L name), (p1 @ p2) @ html_body L (rows df') @ (q2 @ q1))]"
    using 1 2 by (simp add: e)
  have "mset (rows df') = mset (rows df) \<and>
        (CStr START_TIME \<in> set (columns df) \<longrightarrow>
           (\<exists>i. index_of (CStr START_TIME) (columns df) = Some i \<and> ordered_by i (rows df'))) \<and>
        (CStr START_TIME \<notin> set (columns df) \<longrightarrow> rows df' = rows df)"
  proof (cases "CStr START_TIME \<in> set (columns df)")
    case True
    with s have "sort_values L df START_TIME = Inr df'" by simp
    from sort_values_ok [OF this] True show ?thesis by auto
  next
    case False
    with s show ?thesis by simp
  qed
  with w show ?thesis by blast
qed

lemma sort_meas_df:
  "sort_values ex_lib meas_df START_TIME =
     Inr (meas_df\<lparr>rows := [[CInt 1, CInt 10], [CInt 2, CInt 20], [CInt 3, CInt 30]]\<rparr>)"
  by (simp add: sort_values_def rearranged_def ex_lib_def meas_df_def START_TIME_def ascii_def
      cell_at_def notnull_def comparable_def Let_def)

lemma detail_page_meas:
  "detail_page ex_lib (ex_env fs) (projr (opened meas_file)) DEMO_NAME =
     ([Mkdir OUTPUT_DIR,
       WriteText (path_join OUTPUT_DIR (meas_filename ex_lib DEMO_NAME))
         (page_html DEMO_NAME
            (to_html ex_lib
               (meas_df\<lparr>rows := [[CInt 1, CInt 10], [CInt 2, CInt 20], [CInt 3, CInt 30]]\<rparr>)))],
      Inr (page_href (meas_filename ex_lib DEMO_NAME)))"
proof -
  have r: "read_excel (projr (opened meas_file)) MEAS_SHEET = Inr meas_df"
    by (simp add: meas_file_def read_excel_def ex_strings)
  have c: "CStr START_TIME \<in> set (columns meas_df)"
    by (simp add: meas_df_def)
  show ?thesis
    by (simp add: detail_page_def r c sort_meas_df ex_env_def Let_def)
qed

theorem detail_table_in_time_order_witness:
  "read_excel (projr (opened meas_file)) MEAS_SHEET = Inr meas_df \<and>
   index_of (CStr START_TIME) (columns meas_df) = Some 0 \<and>
   map (\<lambda>r. cell_at r 0) (rows meas_df) = [CInt 3, CInt 1, CInt 2] \<and>
   page_writes (fst (detail_page ex_lib (ex_env [meas_file]) (projr (opened meas_file)) DEMO_NAME)) =
     [(path_join OUTPUT_DIR (meas_filename ex_lib DEMO_NAME),
       page_html DEMO_NAME
         (to_html ex_lib
            (meas_df\<lparr>rows := [[CInt 1, CInt 10], [CInt 2, CInt 20], [CInt 3, CInt 30]]\<rparr>)))] \<and>
   (\<exists>rs pre post.
      page_writes (fst (detail_page ex_lib (ex_env [meas_file]) (projr (opened meas_file)) DEMO_NAME)) =
        [(path_join OUTPUT_DIR (meas_filename ex_lib DEMO_NAME), pre @ html_body ex_lib rs @ post)] \<and>
      ordered_by 0 rs \<and> mset rs = mset (rows meas_df))"
proof -
  let ?d = "detail_page ex_lib (ex_env [meas_file]) (projr (opened meas_file)) DEMO_NAME"
  have r: "read_excel (projr (opened meas_file)) MEAS_SHEET = Inr meas_df"
    by (simp add: meas_file_def read_excel_def ex_strings)
  have d: "?d = (fst ?d, Inr (page_href (meas_filename ex_lib DEMO_NAME)))"
    by (simp add: detail_page_meas)
  have i: "index_of (CStr START_TIME) (columns meas_df) = Some 0"
    by (simp add: meas_df_def)
  have c: "CStr START_TIME \<in> set (columns meas_df)"
    by (simp add: meas_df_def)
  have k: "map (\<lambda>r. cell_at r 0) (rows meas_df) = [CInt 3, CInt 1, CInt 2]"
    by (simp add: meas_df_def cell_at_def)
  from detail_table_in_time_order [OF r d] c i
  have "\<exists>rs pre post.
      page_writes (fst ?d) =
        [(path_join OUTPUT_DIR (meas_filename ex_lib DEMO_NAME), pre @ html_body ex_lib rs @ post)] \<and>
      ordered_by 0 rs \<and> mset rs = mset (rows meas_df)"
    by auto
  with r i k show ?thesis
    by (simp add: detail_page_meas)
qed







end
